theory Spec2Isabelle
  imports Main "HOL-Library.AList"
begin

section \<open>Values exchanged between endpoints\<close>

text \<open>
  The endpoint of \<^verbatim>\<open>src/index.ts\<close> handles values of type \<^verbatim>\<open>any\<close>. The fragment
  modelled here is: \<^verbatim>\<open>undefined\<close>, \<^verbatim>\<open>null\<close>, booleans, integer numbers, strings,
  arrays, plain objects (property lists in insertion order) and \<^verbatim>\<open>Error\<close> objects
  (their message). Functions, fractions, NaN, dates, maps and sets are outside it.
\<close>

datatype jsval =
    Undefined
  | Null
  | Bool bool
  | Num int
  | Str string
  | Arr "jsval list"
  | Obj "(string \<times> jsval) list"
  | Error string

text \<open>The truthiness test of \<^verbatim>\<open>if (v)\<close> and \<^verbatim>\<open>!v\<close>.\<close>

fun truthy :: "jsval \<Rightarrow> bool" where
  "truthy Undefined = False"
| "truthy Null = False"
| "truthy (Bool b) = b"
| "truthy (Num n) = (n \<noteq> 0)"
| "truthy (Str s) = (s \<noteq> [])"
| "truthy (Arr xs) = True"
| "truthy (Obj fs) = True"
| "truthy (Error m) = True"

text \<open>
  The property read \<^verbatim>\<open>v.k\<close>, for the property names the endpoint reads (\<^verbatim>\<open>channel\<close>,
  \<^verbatim>\<open>type\<close>, \<^verbatim>\<open>data\<close>, \<^verbatim>\<open>id\<close>, \<^verbatim>\<open>args\<close>, \<^verbatim>\<open>result\<close>, \<^verbatim>\<open>error\<close>): it raises a
  TypeError (\<open>None\<close>) on \<^verbatim>\<open>undefined\<close> and \<^verbatim>\<open>null\<close>, reads the property of a plain
  object, and gives \<^verbatim>\<open>undefined\<close> on every other value, none of which has a property of
  one of these names.
\<close>

fun getProp :: "jsval \<Rightarrow> string \<Rightarrow> jsval option" where
  "getProp Undefined k = None"
| "getProp Null k = None"
| "getProp (Obj fs) k = Some (case map_of fs k of None \<Rightarrow> Undefined | Some v \<Rightarrow> v)"
| "getProp v k = Some Undefined"

text \<open>A property read at a place where the value is already known to be an object.\<close>

definition getField :: "jsval \<Rightarrow> string \<Rightarrow> jsval" where
  "getField v k = (case getProp v k of None \<Rightarrow> Undefined | Some x \<Rightarrow> x)"

text \<open>\<^verbatim>\<open>s.startsWith(p)\<close>.\<close>

definition startsWith :: "string \<Rightarrow> string \<Rightarrow> bool" where
  "startsWith s p = (take (length p) s = p)"

text \<open>
  The decimal digits of a natural number, and the string of an integer number inside a
  template literal. A Number holds every integer below \<open>2\<^sup>5\<^sup>3\<close> in magnitude exactly
  and prints it as its decimal digits, with a leading minus sign. Beyond that bound a
  Number is a rounded floating-point value, printed with the shortest digits that read back
  to it and in exponent form from \<open>10\<^sup>2\<^sup>1\<close> on: that rendering is not modelled, and
  \<open>show_int\<close> is left unspecified there, so that nothing is stated about it.
\<close>

fun show_nat :: "nat \<Rightarrow> string" where
  "show_nat n =
     (if n < 10 then [''0123456789'' ! n]
      else show_nat (n div 10) @ [''0123456789'' ! (n mod 10)])"

declare show_nat.simps [simp del]

definition show_int :: "int \<Rightarrow> string" where
  "show_int i =
     (if \<bar>i\<bar> < 2 ^ 53
      then (if i < 0 then CHR ''-'' # show_nat (nat (- i)) else show_nat (nat i))
      else undefined)"

text \<open>
  The argument list that \<^verbatim>\<open>Function.prototype.apply(thisArg, args)\<close> builds from
  \<^verbatim>\<open>args\<close>: none for \<^verbatim>\<open>undefined\<close> and \<^verbatim>\<open>null\<close>, the elements of an array, a TypeError
  (\<open>None\<close>) for any other primitive. A plain object is read as an array-like: its
  \<^verbatim>\<open>length\<close> is converted by \<^verbatim>\<open>ToLength\<close> (at least 0, at most \<open>2\<^sup>5\<^sup>3 - 1\<close>) and the
  elements are the properties named by the decimal indices below it. \<open>toLength\<close> converts
  an absent, \<^verbatim>\<open>undefined\<close> or \<^verbatim>\<open>null\<close> length, a boolean, an integer, the empty string and a
  string of decimal digits. The conversion of any other string (signs, blanks, fractions,
  exponents, other radixes) and of an array or object (through its \<^verbatim>\<open>toString\<close>) is not
  modelled, and \<open>toLength\<close> is left unspecified there, so that nothing is stated about it.
  An \<^verbatim>\<open>Error\<close> object has no \<^verbatim>\<open>length\<close>.
\<close>

definition digitsValue :: "string \<Rightarrow> nat" where
  "digitsValue s = foldl (\<lambda>a c. 10 * a + (of_char c - 48)) 0 s"

fun toLength :: "jsval option \<Rightarrow> nat" where
  "toLength None = 0"
| "toLength (Some Undefined) = 0"
| "toLength (Some Null) = 0"
| "toLength (Some (Bool b)) = (if b then 1 else 0)"
| "toLength (Some (Num n)) = nat (min n (2 ^ 53 - 1))"
| "toLength (Some (Str s)) =
     (if list_all (\<lambda>c. c \<in> set ''0123456789'') s then min (digitsValue s) (2 ^ 53 - 1)
      else undefined)"
| "toLength (Some v) = undefined"

definition arrayLike :: "(string \<times> jsval) list \<Rightarrow> jsval list" where
  "arrayLike fs =
     map (\<lambda>i. case map_of fs (show_nat i) of None \<Rightarrow> Undefined | Some v \<Rightarrow> v)
       [0..<toLength (map_of fs ''length'')]"

fun createListFromArrayLike :: "jsval \<Rightarrow> jsval list option" where
  "createListFromArrayLike Undefined = Some []"
| "createListFromArrayLike Null = Some []"
| "createListFromArrayLike (Arr xs) = Some xs"
| "createListFromArrayLike (Obj fs) = Some (arrayLike fs)"
| "createListFromArrayLike (Error m) = Some []"
| "createListFromArrayLike v = None"

section \<open>Listeners\<close>

text \<open>
  A listener is a function value: a reference (JavaScript compares functions by
  identity, and the registry is a \<^verbatim>\<open>Set\<close>) and a body. The body is modelled by what a
  call of it does, seen from the endpoint: it returns a value (or a promise fulfilled
  with it), throws synchronously, returns a promise that is rejected, or returns a promise
  that never settles. A body that re-enters the endpoint that is invoking it (calling
  \<^verbatim>\<open>on\<close>, \<^verbatim>\<open>off\<close> or \<^verbatim>\<open>call\<close> on \<^verbatim>\<open>this\<close>) is outside the model.
\<close>

datatype outcome = Returns jsval | Throws jsval | Rejects jsval | Hangs

datatype listener = Listener (ref: nat) (body: "jsval list \<Rightarrow> outcome")

text \<open>\<^verbatim>\<open>Set.prototype.add\<close> and \<^verbatim>\<open>Set.prototype.delete\<close> on a set kept in insertion order.\<close>

definition set_add :: "'a \<Rightarrow> 'a list \<Rightarrow> 'a list" where
  "set_add x xs = (if x \<in> set xs then xs else xs @ [x])"

definition set_delete :: "'a \<Rightarrow> 'a list \<Rightarrow> 'a list" where
  "set_delete x xs = removeAll x xs"

section \<open>The endpoint\<close>

text \<open>
  \<^verbatim>\<open>FramecastConfig\<close>, after the constructor has merged the defaults. \<open>None\<close> is
  \<^verbatim>\<open>null\<close> or \<^verbatim>\<open>undefined\<close>. The \<^verbatim>\<open>self\<close> window is the environment and has no field.
\<close>

record framecast_config =
  cfg_origin :: "string option"
  cfg_channel :: "string option"
  cfg_functionTimeoutMs :: "int option"
  cfg_supportEvaluate :: bool

text \<open>
  An entry of \<^verbatim>\<open>pendingFunctionCalls\<close>: the timer handle and the promise that the stored
  \<^verbatim>\<open>resolve\<close> and \<^verbatim>\<open>reject\<close> functions settle.
\<close>

record pending_call =
  timeout :: nat
  promise :: nat

text \<open>
  The closure given to \<^verbatim>\<open>window.setTimeout\<close> in \<^verbatim>\<open>call\<close>: it captures \<^verbatim>\<open>id\<close>,
  \<^verbatim>\<open>functionName\<close> and \<^verbatim>\<open>reject\<close>; \<open>delay\<close> is the second argument of \<^verbatim>\<open>setTimeout\<close>.
\<close>

record timer =
  timer_id :: int
  timer_functionName :: string
  timer_reject :: nat
  delay :: int

datatype settlement = Resolved jsval | Rejected jsval

text \<open>
  The state of one endpoint: the fields of the class (\<open>config\<close>, \<open>listeners\<close>,
  \<open>pendingFunctionCalls\<close>) and the part of its environment that it acts on: the messages
  given to \<^verbatim>\<open>target.postMessage\<close> with their target origin (\<open>posted\<close>, oldest first), the
  timers that are scheduled and have neither fired nor been cleared, the promises that
  are settled, the listener invocations made so far (\<open>invoked\<close>, oldest first) and the
  rejections of promises that nothing handles (\<open>unhandled\<close>). \<open>'r\<close> is the type of the
  raw payload on the transport.
\<close>

record 'r framecast =
  config :: framecast_config
  listeners :: "string \<rightharpoonup> listener list"
  pendingFunctionCalls :: "int \<rightharpoonup> pending_call"
  posted :: "('r \<times> string) list"
  timers :: "nat \<rightharpoonup> timer"
  nextTimer :: nat
  promises :: "nat \<rightharpoonup> settlement"
  nextPromise :: nat
  invoked :: "(listener \<times> jsval list) list"
  unhandled :: "jsval list"

text \<open>
  The codec (\<^verbatim>\<open>superjson\<close>) is a library outside the repository: \<open>stringify\<close> encodes a
  value, \<open>parse\<close> decodes a raw payload or throws (\<open>None\<close>).
\<close>

record 'r codec =
  stringify :: "jsval \<Rightarrow> 'r"
  parse :: "'r \<Rightarrow> jsval option"

text \<open>What a synchronous call or an \<^verbatim>\<open>async\<close> function without a value ends with.\<close>

datatype completion = Normal | Throw jsval

subsection \<open>Getters and \<^verbatim>\<open>postMessage\<close>\<close>

definition origin :: "framecast_config \<Rightarrow> string" where
  "origin cfg = (case cfg_origin cfg of None \<Rightarrow> ''*'' | Some orig \<Rightarrow> orig)"

definition channel :: "framecast_config \<Rightarrow> string" where
  "channel cfg =
     ''__framecast'' @
       (case cfg_channel cfg of
          None \<Rightarrow> ''''
        | Some c \<Rightarrow> (if c \<noteq> [] then ''_'' @ c else ''''))"

text \<open>
  \<^verbatim>\<open>{ ...message, type, channel: this.channel }\<close>: a property that is already there keeps
  its place and takes the new value, a new one is appended.
\<close>

definition envelope :: "framecast_config \<Rightarrow> string \<Rightarrow> (string \<times> jsval) list \<Rightarrow> jsval" where
  "envelope cfg ty message =
     Obj (AList.update ''channel'' (Str (channel cfg)) (AList.update ''type'' (Str ty) message))"

definition postMessage ::
  "'r codec \<Rightarrow> string \<Rightarrow> (string \<times> jsval) list \<Rightarrow> 'r framecast \<Rightarrow> 'r framecast" where
  "postMessage c ty message s =
     s\<lparr>posted := posted s @ [(stringify c (envelope (config s) ty message), origin (config s))]\<rparr>"

subsection \<open>\<^verbatim>\<open>on\<close> and \<^verbatim>\<open>off\<close>\<close>

text \<open>
  The registry \<^verbatim>\<open>listeners\<close> maps an event key to a \<^verbatim>\<open>Set\<close> of listeners, kept here in
  insertion order. By the type \<^verbatim>\<open>keyof ListenerMap\<close> a key is \<^verbatim>\<open>broadcast\<close> or starts with
  \<^verbatim>\<open>function:\<close>. \<^verbatim>\<open>on\<close> throws after it has created the set of a new key, so it returns
  the state along with how it ended.
\<close>

definition on :: "string \<Rightarrow> listener \<Rightarrow> 'r framecast \<Rightarrow> completion \<times> 'r framecast" where
  "on eventType l s =
     (let s1 = (if listeners s eventType = None
                then s\<lparr>listeners := (listeners s)(eventType \<mapsto> [])\<rparr> else s);
          ls = (case listeners s1 eventType of None \<Rightarrow> [] | Some xs \<Rightarrow> xs)
      in if startsWith eventType ''function:'' \<and> length ls \<noteq> 0
         then (Throw (Error (''Listener already exists for '' @ eventType)), s1)
         else (Normal, s1\<lparr>listeners := (listeners s1)(eventType \<mapsto> set_add l ls)\<rparr>))"

definition off :: "string \<Rightarrow> listener \<Rightarrow> 'r framecast \<Rightarrow> 'r framecast" where
  "off eventType l s =
     (case listeners s eventType of
        None \<Rightarrow> s
      | Some ls \<Rightarrow> s\<lparr>listeners := (listeners s)(eventType \<mapsto> set_delete l ls)\<rparr>)"

subsection \<open>Promises and timers\<close>

text \<open>Settling a promise; a promise that is already settled stays as it is.\<close>

definition settle :: "nat \<Rightarrow> settlement \<Rightarrow> 'r framecast \<Rightarrow> 'r framecast" where
  "settle p v s =
     (case promises s p of
        None \<Rightarrow> s\<lparr>promises := (promises s)(p \<mapsto> v)\<rparr>
      | Some _ \<Rightarrow> s)"

definition clearTimeout :: "nat \<Rightarrow> 'r framecast \<Rightarrow> 'r framecast" where
  "clearTimeout h s = s\<lparr>timers := (timers s)(h := None)\<rparr>"

definition clearPendingFunctionCall :: "int \<Rightarrow> 'r framecast \<Rightarrow> 'r framecast" where
  "clearPendingFunctionCall i s =
     (case pendingFunctionCalls s i of
        None \<Rightarrow> s
      | Some pendingCall \<Rightarrow>
          clearTimeout (timeout pendingCall)
            (s\<lparr>pendingFunctionCalls := (pendingFunctionCalls s)(i := None)\<rparr>))"

subsection \<open>\<^verbatim>\<open>broadcast\<close> and \<^verbatim>\<open>call\<close>\<close>

definition broadcast :: "'r codec \<Rightarrow> jsval \<Rightarrow> 'r framecast \<Rightarrow> 'r framecast" where
  "broadcast c d s = postMessage c ''broadcast'' [(''data'', d)] s"

text \<open>
  \<^verbatim>\<open>call\<close> is an \<^verbatim>\<open>async\<close> function: it returns a promise, here the next unused promise
  number, and its \<^verbatim>\<open>throw\<close> rejects that promise. \<open>now\<close> is what \<^verbatim>\<open>Date.now()\<close> returns.
\<close>

definition timeoutNotSet :: jsval where
  "timeoutNotSet = Error ''Framecast.call() requires a config.functionTimeoutMs to be set''"

definition call ::
  "'r codec \<Rightarrow> string \<Rightarrow> jsval list \<Rightarrow> int \<Rightarrow> 'r framecast \<Rightarrow> nat \<times> 'r framecast" where
  "call c functionName args now s =
     (let i = now;
          p = nextPromise s;
          s0 = s\<lparr>nextPromise := Suc p\<rparr>
      in case cfg_functionTimeoutMs (config s) of
           None \<Rightarrow> (p, settle p (Rejected timeoutNotSet) s0)
         | Some ms \<Rightarrow>
             if ms = 0 then (p, settle p (Rejected timeoutNotSet) s0)
             else
               let h = nextTimer s0;
                   s1 = s0\<lparr>nextTimer := Suc h,
                          timers := (timers s0)(h \<mapsto>
                            \<lparr>timer_id = i, timer_functionName = functionName,
                             timer_reject = p, delay = ms\<rparr>)\<rparr>;
                   s2 = s1\<lparr>pendingFunctionCalls :=
                            (pendingFunctionCalls s1)(i \<mapsto> \<lparr>timeout = h, promise = p\<rparr>)\<rparr>
               in (p, postMessage c (''function:'' @ functionName)
                        [(''id'', Num i), (''args'', Arr args)] s2))"

text \<open>The timer of a call comes due: the closure scheduled by \<^verbatim>\<open>call\<close> runs.\<close>

definition show_ms :: "int option \<Rightarrow> string" where
  "show_ms t = (case t of None \<Rightarrow> ''null'' | Some ms \<Rightarrow> show_int ms)"

definition timedOut :: "framecast_config \<Rightarrow> string \<Rightarrow> jsval" where
  "timedOut cfg functionName =
     Error (functionName @ '' timed out after '' @ show_ms (cfg_functionTimeoutMs cfg) @ ''ms'')"

definition fireTimer :: "nat \<Rightarrow> 'r framecast \<Rightarrow> 'r framecast" where
  "fireTimer h s =
     (case timers s h of
        None \<Rightarrow> s
      | Some t \<Rightarrow>
          let s1 = s\<lparr>timers := (timers s)(h := None)\<rparr>;
              s2 = clearPendingFunctionCall (timer_id t) s1
          in settle (timer_reject t)
               (Rejected (timedOut (config s2) (timer_functionName t))) s2)"

subsection \<open>Inbound dispatch\<close>

text \<open>
  \<^verbatim>\<open>handleBroadcast\<close>: the loop over the broadcast listeners. A listener that throws ends
  the loop, and the \<^verbatim>\<open>async\<close> function ends with that exception.
\<close>

fun broadcastLoop ::
  "listener list \<Rightarrow> jsval \<Rightarrow> 'r framecast \<Rightarrow> completion \<times> 'r framecast" where
  "broadcastLoop [] d s = (Normal, s)"
| "broadcastLoop (l # ls) d s =
     (let s1 = s\<lparr>invoked := invoked s @ [(l, [d])]\<rparr>
      in case body l [d] of
           Throws e \<Rightarrow> (Throw e, s1)
         | _ \<Rightarrow> broadcastLoop ls d s1)"

definition handleBroadcast :: "jsval \<Rightarrow> 'r framecast \<Rightarrow> completion \<times> 'r framecast" where
  "handleBroadcast d s =
     broadcastLoop (case listeners s ''broadcast'' of None \<Rightarrow> [] | Some ls \<Rightarrow> ls) d s"

text \<open>
  \<^verbatim>\<open>handleFunctionCall\<close>: the loop inside \<^verbatim>\<open>try\<close>, with \<^verbatim>\<open>result\<close> the value of the last
  listener awaited. Each handler is run to its end in one step: the reply is posted when
  the listener's promise has settled, and nothing is posted when it never settles.
\<close>

definition applyError :: jsval where
  "applyError = Error ''CreateListFromArrayLike called on non-object''"

fun functionLoop ::
  "'r codec \<Rightarrow> listener list \<Rightarrow> jsval \<Rightarrow> jsval \<Rightarrow> jsval \<Rightarrow> 'r framecast \<Rightarrow> 'r framecast" where
  "functionLoop c [] i args result s =
     postMessage c ''functionResult'' [(''id'', i), (''result'', result)] s"
| "functionLoop c (l # ls) i args result s =
     (case createListFromArrayLike args of
        None \<Rightarrow> postMessage c ''functionResult'' [(''id'', i), (''error'', applyError)] s
      | Some xs \<Rightarrow>
          (let s1 = s\<lparr>invoked := invoked s @ [(l, xs)]\<rparr>
           in (case body l xs of
                 Returns v \<Rightarrow> functionLoop c ls i args v s1
               | Throws e \<Rightarrow> postMessage c ''functionResult'' [(''id'', i), (''error'', e)] s1
               | Rejects e \<Rightarrow> postMessage c ''functionResult'' [(''id'', i), (''error'', e)] s1
               | Hangs \<Rightarrow> s1)))"

definition handleFunctionCall ::
  "'r codec \<Rightarrow> string \<Rightarrow> jsval \<Rightarrow> jsval \<Rightarrow> 'r framecast \<Rightarrow> 'r framecast" where
  "handleFunctionCall c eventType i args s =
     (case listeners s eventType of
        None \<Rightarrow>
          postMessage c ''functionResult''
            [(''id'', i), (''error'', Error (''No listeners for '' @ eventType))] s
      | Some ls \<Rightarrow>
          if length ls = 0
          then postMessage c ''functionResult''
                 [(''id'', i), (''error'', Error (''No listeners for '' @ eventType))] s
          else functionLoop c ls i args Undefined s)"

text \<open>
  \<^verbatim>\<open>pendingFunctionCalls.get(data.id)\<close>: the keys of the table are numbers, so only a
  number finds an entry.
\<close>

definition getPending :: "'r framecast \<Rightarrow> jsval \<Rightarrow> (int \<times> pending_call) option" where
  "getPending s i =
     (case i of
        Num n \<Rightarrow> (case pendingFunctionCalls s n of None \<Rightarrow> None | Some pc \<Rightarrow> Some (n, pc))
      | _ \<Rightarrow> None)"

definition handleFunctionResult :: "jsval \<Rightarrow> 'r framecast \<Rightarrow> 'r framecast" where
  "handleFunctionResult d s =
     (case getPending s (getField d ''id'') of
        None \<Rightarrow> s
      | Some (n, pendingCall) \<Rightarrow>
          let s1 = clearPendingFunctionCall n s
          in if truthy (getField d ''error'')
             then settle (promise pendingCall) (Rejected (getField d ''error'')) s1
             else settle (promise pendingCall) (Resolved (getField d ''result'')) s1)"

text \<open>
  \<^verbatim>\<open>handlePostedMessage\<close>: \<open>raw\<close> is \<^verbatim>\<open>event.data\<close> and \<open>sender\<close> is \<^verbatim>\<open>event.origin\<close>. Every
  exception raised before a handler is started (by \<^verbatim>\<open>parse\<close>, by a property read on
  \<^verbatim>\<open>null\<close>, by \<^verbatim>\<open>startsWith\<close> on a \<^verbatim>\<open>type\<close> that is not a string) is caught and the
  message is dropped. The three handlers are \<^verbatim>\<open>async\<close> and are not awaited: an exception
  that ends \<^verbatim>\<open>handleBroadcast\<close> is a rejection that nothing handles.
\<close>

definition dispatch :: "'r codec \<Rightarrow> jsval \<Rightarrow> 'r framecast \<Rightarrow> 'r framecast" where
  "dispatch c d s =
     (case getProp d ''type'' of
        Some (Str ty) \<Rightarrow>
          if ty = ''broadcast'' then
            (case handleBroadcast (getField d ''data'') s of
               (Normal, s') \<Rightarrow> s'
             | (Throw e, s') \<Rightarrow> s'\<lparr>unhandled := unhandled s' @ [e]\<rparr>)
          else if ty = ''functionResult'' then handleFunctionResult d s
          else if startsWith ty ''function:''
          then handleFunctionCall c ty (getField d ''id'') (getField d ''args'') s
          else s
      | _ \<Rightarrow> s)"

definition handlePostedMessage :: "'r codec \<Rightarrow> 'r \<Rightarrow> string \<Rightarrow> 'r framecast \<Rightarrow> 'r framecast" where
  "handlePostedMessage c raw sender s =
     (case parse c raw of
        None \<Rightarrow> s
      | Some d \<Rightarrow>
          if origin (config s) \<noteq> ''*'' \<and> sender \<noteq> origin (config s) then s
          else (case getProp d ''channel'' of
                  None \<Rightarrow> s
                | Some ch \<Rightarrow> if Str (channel (config s)) \<noteq> ch then s else dispatch c d s))"

subsection \<open>Construction\<close>

text \<open>
  The state the constructor leaves, for a target that is present: the merged
  configuration, a registry with an empty set under \<^verbatim>\<open>broadcast\<close>, no pending call, and,
  with \<^verbatim>\<open>supportEvaluate\<close>, the listener \<open>evaluate\<close> (the function around \<^verbatim>\<open>eval\<close>)
  registered under \<^verbatim>\<open>function:evaluate\<close>.
\<close>

definition fresh :: "framecast_config \<Rightarrow> 'r framecast" where
  "fresh cfg =
     \<lparr>config = cfg, listeners = [''broadcast'' \<mapsto> []], pendingFunctionCalls = Map.empty,
      posted = [], timers = Map.empty, nextTimer = 0, promises = Map.empty, nextPromise = 0,
      invoked = [], unhandled = []\<rparr>"

definition constructor :: "framecast_config \<Rightarrow> listener \<Rightarrow> 'r framecast" where
  "constructor cfg evaluate =
     (if cfg_supportEvaluate cfg then snd (on ''function:evaluate'' evaluate (fresh cfg))
      else fresh cfg)"

section \<open>Runs of an endpoint\<close>

text \<open>
  What can happen to an endpoint: a call of its public interface, a message event on its
  window, or a timer that comes due. An endpoint is single-threaded, so its history is a
  sequence of such events, each run to its end.
\<close>

datatype 'r event =
    On string listener
  | Off string listener
  | Broadcast jsval
  | Call string "jsval list" int
  | Message 'r string
  | TimerDue nat

fun step :: "'r codec \<Rightarrow> 'r event \<Rightarrow> 'r framecast \<Rightarrow> 'r framecast" where
  "step c (On k l) s = snd (on k l s)"
| "step c (Off k l) s = off k l s"
| "step c (Broadcast d) s = broadcast c d s"
| "step c (Call f args now) s = snd (call c f args now s)"
| "step c (Message raw sender) s = handlePostedMessage c raw sender s"
| "step c (TimerDue h) s = fireTimer h s"

definition run :: "'r codec \<Rightarrow> 'r event list \<Rightarrow> 'r framecast \<Rightarrow> 'r framecast" where
  "run c es s = foldl (\<lambda>s e. step c e s) s es"

text \<open>
  The invariant of the states an endpoint can reach. The registry holds sets (no listener
  twice), with at most one listener under a \<^verbatim>\<open>function:\<close> key. Promise and timer numbers
  from the counters on are unused. A scheduled timer belongs to a promise that is not
  settled yet and to no other timer, and was scheduled with the configured, non-zero
  timeout. The timer of every pending call is scheduled and carries the id and the
  promise of that entry.
\<close>

definition registryOk :: "(string \<rightharpoonup> listener list) \<Rightarrow> bool" where
  "registryOk m \<longleftrightarrow>
     (\<forall>k ls. m k = Some ls \<longrightarrow>
        distinct ls \<and> (startsWith k ''function:'' \<longrightarrow> length ls \<le> 1))"

definition sound :: "'r framecast \<Rightarrow> bool" where
  "sound s \<longleftrightarrow>
     registryOk (listeners s) \<and>
     (\<forall>p. nextPromise s \<le> p \<longrightarrow> promises s p = None) \<and>
     (\<forall>h. nextTimer s \<le> h \<longrightarrow> timers s h = None) \<and>
     (\<forall>h t. timers s h = Some t \<longrightarrow>
        promises s (timer_reject t) = None \<and> timer_reject t < nextPromise s \<and>
        cfg_functionTimeoutMs (config s) = Some (delay t) \<and> delay t \<noteq> 0) \<and>
     (\<forall>h h' t t'. timers s h = Some t \<longrightarrow> timers s h' = Some t' \<longrightarrow>
        timer_reject t = timer_reject t' \<longrightarrow> h = h') \<and>
     (\<forall>i pc. pendingFunctionCalls s i = Some pc \<longrightarrow>
        (\<exists>t. timers s (timeout pc) = Some t \<and> timer_id t = i \<and> timer_reject t = promise pc))"

section \<open>Example endpoints\<close>

text \<open>
  Concrete inputs for the examples below. The example codec carries a value as itself
  and takes \<open>None\<close> for a payload that does not decode.
\<close>

definition exampleCodec :: "jsval option codec" where
  "exampleCodec = \<lparr>stringify = Some, parse = (\<lambda>raw. raw)\<rparr>"

definition exampleConfig :: "string option \<Rightarrow> string option \<Rightarrow> int option \<Rightarrow> framecast_config" where
  "exampleConfig orig chan ms =
     \<lparr>cfg_origin = orig, cfg_channel = chan, cfg_functionTimeoutMs = ms,
      cfg_supportEvaluate = False\<rparr>"

definition returning :: "nat \<Rightarrow> jsval \<Rightarrow> listener" where
  "returning r v = Listener r (\<lambda>args. Returns v)"

definition throwing :: "nat \<Rightarrow> jsval \<Rightarrow> listener" where
  "throwing r e = Listener r (\<lambda>args. Throws e)"

definition exampleBroadcast :: "string \<Rightarrow> jsval \<Rightarrow> jsval" where
  "exampleBroadcast ch d = Obj [(''data'', d), (''type'', Str ''broadcast''), (''channel'', Str ch)]"

definition exampleEndpoint :: "framecast_config \<Rightarrow> jsval option framecast" where
  "exampleEndpoint cfg = snd (on ''broadcast'' (returning 1 Undefined) (fresh cfg))"

text \<open>Envelopes as they arrive, and the endpoints of the scenarios below.\<close>

definition exampleCall :: "string \<Rightarrow> string \<Rightarrow> int \<Rightarrow> jsval list \<Rightarrow> jsval" where
  "exampleCall ch name i args =
     Obj [(''id'', Num i), (''args'', Arr args), (''type'', Str (''function:'' @ name)),
          (''channel'', Str ch)]"

definition exampleResult :: "string \<Rightarrow> int \<Rightarrow> jsval \<Rightarrow> jsval" where
  "exampleResult ch i v =
     Obj [(''id'', Num i), (''result'', v), (''type'', Str ''functionResult''), (''channel'', Str ch)]"

definition twoCalls :: "jsval option framecast" where
  "twoCalls = run exampleCodec [Call ''f'' [] 1000, Call ''g'' [] 1000]
                (fresh (exampleConfig None None (Some 10000)))"

definition responder :: "jsval option framecast" where
  "responder = run exampleCodec
                 [On ''function:f'' (returning 1 (Str ''from f'')),
                  On ''function:g'' (returning 2 (Str ''from g''))]
                 (fresh (exampleConfig None None (Some 10000)))"

definition doubling :: "nat \<Rightarrow> listener" where
  "doubling r =
     Listener r (\<lambda>args. case args of
                           [Num n] \<Rightarrow> Returns (Num (2 * n))
                         | _ \<Rightarrow> Throws (Error ''expected one number''))"

definition doubler :: "jsval option framecast" where
  "doubler = snd (on ''function:double'' (doubling 1) (fresh (exampleConfig None (Some ''c1'') (Some 10000))))"

definition slowCall :: "jsval option framecast" where
  "slowCall = snd (call exampleCodec ''slow'' [] 1000 (fresh (exampleConfig None None (Some 50))))"

section \<open>Basic facts\<close>

lemma show_nat_digit: "n < 10 \<Longrightarrow> show_nat n = [''0123456789'' ! n]"
  by (simp add: show_nat.simps)

lemma show_nat_more:
  "\<not> n < 10 \<Longrightarrow> show_nat n = show_nat (n div 10) @ [''0123456789'' ! (n mod 10)]"
  by (subst show_nat.simps) simp

lemma startsWith_append: "startsWith (p @ s) p"
  by (simp add: startsWith_def)

lemma clearPendingFunctionCall_fields:
  "pendingFunctionCalls (clearPendingFunctionCall i s) = (pendingFunctionCalls s)(i := None)"
  "timers (clearPendingFunctionCall i s) =
     (case pendingFunctionCalls s i of None \<Rightarrow> timers s
      | Some pc \<Rightarrow> (timers s)(timeout pc := None))"
  "config (clearPendingFunctionCall i s) = config s"
  "nextPromise (clearPendingFunctionCall i s) = nextPromise s"
  "nextTimer (clearPendingFunctionCall i s) = nextTimer s"
  "promises (clearPendingFunctionCall i s) = promises s"
  "listeners (clearPendingFunctionCall i s) = listeners s"
  "posted (clearPendingFunctionCall i s) = posted s"
  "invoked (clearPendingFunctionCall i s) = invoked s"
  "unhandled (clearPendingFunctionCall i s) = unhandled s"
  by (auto simp: clearPendingFunctionCall_def clearTimeout_def split: option.splits)

lemma settle_fields:
  "promises (settle p v s) = (case promises s p of None \<Rightarrow> (promises s)(p \<mapsto> v) | Some x \<Rightarrow> promises s)"
  "pendingFunctionCalls (settle p v s) = pendingFunctionCalls s"
  "timers (settle p v s) = timers s"
  "config (settle p v s) = config s"
  "nextPromise (settle p v s) = nextPromise s"
  "nextTimer (settle p v s) = nextTimer s"
  "listeners (settle p v s) = listeners s"
  "posted (settle p v s) = posted s"
  "invoked (settle p v s) = invoked s"
  "unhandled (settle p v s) = unhandled s"
  by (auto simp: settle_def split: option.splits)

section \<open>The invariant holds in every reachable state\<close>

lemma soundI:
  assumes "registryOk (listeners s)"
    and "\<And>p. nextPromise s \<le> p \<Longrightarrow> promises s p = None"
    and "\<And>h. nextTimer s \<le> h \<Longrightarrow> timers s h = None"
    and "\<And>h t. timers s h = Some t \<Longrightarrow>
           promises s (timer_reject t) = None \<and> timer_reject t < nextPromise s \<and>
           cfg_functionTimeoutMs (config s) = Some (delay t) \<and> delay t \<noteq> 0"
    and "\<And>h h' t t'. timers s h = Some t \<Longrightarrow> timers s h' = Some t' \<Longrightarrow>
           timer_reject t = timer_reject t' \<Longrightarrow> h = h'"
    and "\<And>i pc. pendingFunctionCalls s i = Some pc \<Longrightarrow>
           \<exists>t. timers s (timeout pc) = Some t \<and> timer_id t = i \<and> timer_reject t = promise pc"
  shows "sound s"
  unfolding sound_def using assms by blast

lemma sound_registry: "sound s \<Longrightarrow> registryOk (listeners s)"
  by (simp add: sound_def)

lemma sound_promises: "sound s \<Longrightarrow> nextPromise s \<le> p \<Longrightarrow> promises s p = None"
  by (simp add: sound_def)

lemma sound_timers: "sound s \<Longrightarrow> nextTimer s \<le> h \<Longrightarrow> timers s h = None"
  by (simp add: sound_def)

lemma sound_timer:
  "sound s \<Longrightarrow> timers s h = Some t \<Longrightarrow>
   promises s (timer_reject t) = None \<and> timer_reject t < nextPromise s \<and>
   cfg_functionTimeoutMs (config s) = Some (delay t) \<and> delay t \<noteq> 0"
  unfolding sound_def by blast

lemma sound_timer_inj:
  "sound s \<Longrightarrow> timers s h = Some t \<Longrightarrow> timers s h' = Some t' \<Longrightarrow>
   timer_reject t = timer_reject t' \<Longrightarrow> h = h'"
  unfolding sound_def by blast

lemma sound_pending:
  "sound s \<Longrightarrow> pendingFunctionCalls s i = Some pc \<Longrightarrow>
   \<exists>t. timers s (timeout pc) = Some t \<and> timer_id t = i \<and> timer_reject t = promise pc"
  unfolding sound_def by blast

lemma sound_fresh: "sound (fresh cfg)"
  by (simp add: sound_def registryOk_def fresh_def)

lemma distinct_set_add: "distinct xs \<Longrightarrow> distinct (set_add x xs)"
  by (simp add: set_add_def)

lemma registryOk_on:
  assumes "registryOk (listeners s)"
  shows "registryOk (listeners (snd (on k l s)))"
proof (cases "listeners s k")
  case None
  then show ?thesis
    using assms by (auto simp: registryOk_def on_def Let_def set_add_def)
next
  case (Some ls)
  with assms have "distinct ls" by (auto simp: registryOk_def)
  then show ?thesis
    using assms Some by (auto simp: registryOk_def on_def Let_def set_add_def)
qed

lemma registryOk_off:
  assumes "registryOk (listeners s)"
  shows "registryOk (listeners (off k l s))"
proof (cases "listeners s k")
  case None
  then show ?thesis using assms by (simp add: off_def)
next
  case (Some ls)
  with assms have ls: "distinct ls" "startsWith k ''function:'' \<longrightarrow> length ls \<le> 1"
    by (auto simp: registryOk_def)
  have "length (removeAll l ls) \<le> length ls"
    by simp
  with ls have "startsWith k ''function:'' \<longrightarrow> length (removeAll l ls) \<le> 1"
    by linarith
  with ls(1) show ?thesis
    using assms Some
    by (auto simp: registryOk_def off_def set_delete_def distinct_removeAll)
qed

lemma sound_listeners:
  assumes "sound s" and "registryOk (listeners s')"
    and "config s' = config s" "nextPromise s' = nextPromise s" "nextTimer s' = nextTimer s"
    and "timers s' = timers s" "promises s' = promises s"
    and "pendingFunctionCalls s' = pendingFunctionCalls s"
  shows "sound s'"
  using assms unfolding sound_def by simp

lemma sound_on: assumes "sound s" shows "sound (snd (on k l s))"
proof (rule sound_listeners [OF assms])
  show "registryOk (listeners (snd (on k l s)))"
    by (rule registryOk_on [OF sound_registry [OF assms]])
qed (simp_all add: on_def Let_def)

lemma sound_off: assumes "sound s" shows "sound (off k l s)"
proof (rule sound_listeners [OF assms])
  show "registryOk (listeners (off k l s))"
    by (rule registryOk_off [OF sound_registry [OF assms]])
qed (simp_all add: off_def split: option.splits)

lemma sound_postMessage: "sound (postMessage c ty m s) = sound s"
  by (simp add: sound_def postMessage_def)

lemma sound_invoked: "sound (s\<lparr>invoked := x\<rparr>) = sound s"
  by (simp add: sound_def)

lemma sound_unhandled: "sound (s\<lparr>unhandled := x\<rparr>) = sound s"
  by (simp add: sound_def)

lemma sound_constructor: "sound (constructor cfg ev)"
  by (simp add: constructor_def sound_fresh sound_on)

lemma sound_broadcastLoop: "sound s \<Longrightarrow> sound (snd (broadcastLoop ls d s))"
  by (induction ls arbitrary: s) (auto simp: Let_def sound_invoked split: outcome.splits)

lemma sound_functionLoop: "sound s \<Longrightarrow> sound (functionLoop c ls i args r s)"
  by (induction ls arbitrary: s r) (auto simp: Let_def sound_invoked sound_postMessage split: outcome.splits option.splits)

lemma sound_settle_fresh:
  assumes "sound s"
  shows "sound (settle (nextPromise s) v (s\<lparr>nextPromise := Suc (nextPromise s)\<rparr>))"
proof (rule soundI)
  let ?s = "settle (nextPromise s) v (s\<lparr>nextPromise := Suc (nextPromise s)\<rparr>)"
  have pr: "promises ?s = (promises s)(nextPromise s \<mapsto> v)"
    using sound_promises [OF assms, of "nextPromise s"] by (simp add: settle_def)
  have rest: "nextPromise ?s = Suc (nextPromise s)" "timers ?s = timers s"
    "nextTimer ?s = nextTimer s" "config ?s = config s"
    "pendingFunctionCalls ?s = pendingFunctionCalls s" "listeners ?s = listeners s"
    by (simp_all add: settle_def split: option.splits)
  show "registryOk (listeners ?s)"
    using sound_registry [OF assms] by (simp add: rest)
  show "promises ?s p = None" if "nextPromise ?s \<le> p" for p
    using that sound_promises [OF assms, of p] by (simp add: pr rest)
  show "timers ?s h = None" if "nextTimer ?s \<le> h" for h
    using that sound_timers [OF assms, of h] by (simp add: rest)
  show "promises ?s (timer_reject t) = None \<and> timer_reject t < nextPromise ?s \<and>
        cfg_functionTimeoutMs (config ?s) = Some (delay t) \<and> delay t \<noteq> 0"
    if "timers ?s h = Some t" for h t
    using that sound_timer [OF assms, of h t] by (simp add: pr rest)
  show "h = h'" if "timers ?s h = Some t" "timers ?s h' = Some t'" "timer_reject t = timer_reject t'"
    for h h' t t'
    using that sound_timer_inj [OF assms, of h t h' t'] by (simp add: rest)
  show "\<exists>t. timers ?s (timeout pc) = Some t \<and> timer_id t = i \<and> timer_reject t = promise pc"
    if "pendingFunctionCalls ?s i = Some pc" for i pc
    using that sound_pending [OF assms, of i pc] by (simp add: rest)
qed

lemma sound_schedule:
  fixes i :: int and f :: string
  assumes "sound s" and ms: "cfg_functionTimeoutMs (config s) = Some ms" "ms \<noteq> 0"
  defines "t0 \<equiv> \<lparr>timer_id = i, timer_functionName = f, timer_reject = nextPromise s, delay = ms\<rparr>"
  defines "s' \<equiv> s\<lparr>nextPromise := Suc (nextPromise s), nextTimer := Suc (nextTimer s),
        timers := (timers s)(nextTimer s \<mapsto> t0),
        pendingFunctionCalls := (pendingFunctionCalls s)(i \<mapsto> \<lparr>timeout = nextTimer s, promise = nextPromise s\<rparr>)\<rparr>"
  shows "sound s'"
proof (rule soundI)
  have nt: "timers s (nextTimer s) = None"
    using sound_timers [OF assms(1), of "nextTimer s"] by simp
  show "registryOk (listeners s')"
    using sound_registry [OF assms(1)] by (simp add: s'_def)
  show "promises s' p = None" if "nextPromise s' \<le> p" for p
    using that sound_promises [OF assms(1), of p] by (simp add: s'_def)
  show "timers s' h = None" if "nextTimer s' \<le> h" for h
    using that sound_timers [OF assms(1), of h] by (simp add: s'_def)
  show "promises s' (timer_reject t) = None \<and> timer_reject t < nextPromise s' \<and>
        cfg_functionTimeoutMs (config s') = Some (delay t) \<and> delay t \<noteq> 0"
    if "timers s' h = Some t" for h t
  proof (cases "h = nextTimer s")
    case True
    with that have "t = t0" by (simp add: s'_def)
    then show ?thesis
      using ms sound_promises [OF assms(1), of "nextPromise s"] by (simp add: s'_def t0_def)
  next
    case False
    with that have "timers s h = Some t" by (simp add: s'_def)
    from sound_timer [OF assms(1) this] show ?thesis by (simp add: s'_def)
  qed
  show "h = h'" if "timers s' h = Some t" "timers s' h' = Some t'" "timer_reject t = timer_reject t'"
    for h h' t t'
  proof -
    have old: "timer_reject u \<noteq> nextPromise s" if "timers s k = Some u" for k u
      using sound_timer [OF assms(1) that] by simp
    show ?thesis
      using that old [of h t] old [of h' t'] sound_timer_inj [OF assms(1), of h t h' t']
      by (auto simp: s'_def t0_def split: if_splits)
  qed
  show "\<exists>t. timers s' (timeout pc) = Some t \<and> timer_id t = j \<and> timer_reject t = promise pc"
    if "pendingFunctionCalls s' j = Some pc" for j pc
  proof (cases "j = i")
    case True
    with that show ?thesis by (auto simp: s'_def t0_def)
  next
    case False
    with that have "pendingFunctionCalls s j = Some pc" by (simp add: s'_def)
    from sound_pending [OF assms(1) this] obtain t where
      t: "timers s (timeout pc) = Some t" "timer_id t = j" "timer_reject t = promise pc" by blast
    with nt have "timeout pc \<noteq> nextTimer s" by auto
    with t show ?thesis by (simp add: s'_def)
  qed
qed

lemma sound_call: assumes "sound s" shows "sound (snd (call c f args now s))"
proof (cases "cfg_functionTimeoutMs (config s) = None \<or> cfg_functionTimeoutMs (config s) = Some 0")
  case True
  then show ?thesis
    using sound_settle_fresh [OF assms] by (auto simp: call_def Let_def)
next
  case False
  then obtain ms where ms: "cfg_functionTimeoutMs (config s) = Some ms" "ms \<noteq> 0" by auto
  from sound_schedule [OF assms ms, where i = now and f = f] show ?thesis
    using ms by (simp add: call_def Let_def sound_postMessage)
qed

lemma sound_shrink:
  assumes s: "sound s"
    and cfg: "config s' = config s" "nextPromise s' = nextPromise s" "nextTimer s' = nextTimer s"
    and ls: "listeners s' = listeners s"
    and tm: "timers s' \<subseteq>\<^sub>m timers s"
    and pd: "pendingFunctionCalls s' \<subseteq>\<^sub>m pendingFunctionCalls s"
    and lk: "\<And>i pc. pendingFunctionCalls s' i = Some pc \<Longrightarrow> timers s' (timeout pc) \<noteq> None"
    and pr: "\<And>q. promises s' q \<noteq> promises s q \<Longrightarrow>
               q < nextPromise s \<and> (\<forall>h t. timers s' h = Some t \<longrightarrow> timer_reject t \<noteq> q)"
  shows "sound s'"
proof (rule soundI)
  show "registryOk (listeners s')"
    using sound_registry [OF s] by (simp add: ls)
  have tmD: "timers s h = Some t" if "timers s' h = Some t" for h t
    using tm that by (auto simp: map_le_def dom_def)
  have pdD: "pendingFunctionCalls s i = Some pc" if "pendingFunctionCalls s' i = Some pc" for i pc
    using pd that by (auto simp: map_le_def dom_def)
  show "promises s' p = None" if "nextPromise s' \<le> p" for p
    using that pr [of p] sound_promises [OF s, of p] cfg by (cases "promises s' p = promises s p") auto
  show "timers s' h = None" if "nextTimer s' \<le> h" for h
    using that sound_timers [OF s, of h] tmD [of h] cfg by (cases "timers s' h") auto
  show "promises s' (timer_reject t) = None \<and> timer_reject t < nextPromise s' \<and>
        cfg_functionTimeoutMs (config s') = Some (delay t) \<and> delay t \<noteq> 0"
    if "timers s' h = Some t" for h t
    using that sound_timer [OF s tmD [OF that]] pr [of "timer_reject t"] cfg
    by (cases "promises s' (timer_reject t) = promises s (timer_reject t)") auto
  show "h = h'" if "timers s' h = Some t" "timers s' h' = Some t'" "timer_reject t = timer_reject t'"
    for h h' t t'
    using sound_timer_inj [OF s tmD [OF that(1)] tmD [OF that(2)] that(3)] .
  show "\<exists>t. timers s' (timeout pc) = Some t \<and> timer_id t = i \<and> timer_reject t = promise pc"
    if "pendingFunctionCalls s' i = Some pc" for i pc
  proof -
    from sound_pending [OF s pdD [OF that]] obtain t where
      t: "timers s (timeout pc) = Some t" "timer_id t = i" "timer_reject t = promise pc" by blast
    from lk [OF that] obtain t' where t': "timers s' (timeout pc) = Some t'" by auto
    from tmD [OF t'] t have "t' = t" by simp
    with t t' show ?thesis by simp
  qed
qed


lemma sound_fireTimer: assumes s: "sound s" shows "sound (fireTimer h s)"
proof (cases "timers s h")
  case None
  then show ?thesis using s by (simp add: fireTimer_def)
next
  case (Some t)
  let ?s1 = "s\<lparr>timers := (timers s)(h := None)\<rparr>"
  let ?s2 = "clearPendingFunctionCall (timer_id t) ?s1"
  let ?s' = "settle (timer_reject t) (Rejected (timedOut (config ?s2) (timer_functionName t))) ?s2"
  have eq: "fireTimer h s = ?s'"
    using Some by (simp add: fireTimer_def Let_def)
  have "sound ?s'"
  proof (rule sound_shrink [OF s])
    show "config ?s' = config s" "nextPromise ?s' = nextPromise s" "nextTimer ?s' = nextTimer s"
      "listeners ?s' = listeners s"
      by (simp_all add: settle_fields clearPendingFunctionCall_fields)
    show "timers ?s' \<subseteq>\<^sub>m timers s"
      by (auto simp: settle_fields clearPendingFunctionCall_fields map_le_def split: option.splits)
    show "pendingFunctionCalls ?s' \<subseteq>\<^sub>m pendingFunctionCalls s"
      by (auto simp: settle_fields clearPendingFunctionCall_fields map_le_def)
    show "timers ?s' (timeout pc) \<noteq> None" if "pendingFunctionCalls ?s' i = Some pc" for i pc
    proof -
      from that have i: "i \<noteq> timer_id t" and pc: "pendingFunctionCalls s i = Some pc"
        by (auto simp: settle_fields clearPendingFunctionCall_fields split: if_splits)
      from sound_pending [OF s pc] obtain u where
        u: "timers s (timeout pc) = Some u" "timer_id u = i" by blast
      with Some i have 1: "timeout pc \<noteq> h" by auto
      have 2: "timeout pc \<noteq> timeout pc'" if "pendingFunctionCalls s (timer_id t) = Some pc'" for pc'
        using sound_pending [OF s that] u i by auto
      show ?thesis
        using u 1 2 by (auto simp: settle_fields clearPendingFunctionCall_fields split: option.splits)
    qed
    show "q < nextPromise s \<and> (\<forall>k u. timers ?s' k = Some u \<longrightarrow> timer_reject u \<noteq> q)"
      if "promises ?s' q \<noteq> promises s q" for q
    proof -
      from that have q: "q = timer_reject t"
        by (auto simp: settle_fields clearPendingFunctionCall_fields split: option.splits if_splits)
      have "timer_reject u \<noteq> timer_reject t" if "timers ?s' k = Some u" for k u
      proof -
        from that have "k \<noteq> h" "timers s k = Some u"
          by (auto simp: settle_fields clearPendingFunctionCall_fields split: option.splits if_splits)
        with sound_timer_inj [OF s Some, of k u] show ?thesis by auto
      qed
      with q sound_timer [OF s Some] show ?thesis by auto
    qed
  qed
  with eq show ?thesis by simp
qed

lemma sound_handleFunctionResult: assumes s: "sound s" shows "sound (handleFunctionResult d s)"
proof (cases "getPending s (getField d ''id'')")
  case None
  then show ?thesis using s by (simp add: handleFunctionResult_def)
next
  case (Some a)
  obtain n pc where a: "a = (n, pc)" by (cases a)
  with Some have pc: "pendingFunctionCalls s n = Some pc"
    by (auto simp: getPending_def split: jsval.splits option.splits)
  from sound_pending [OF s pc] obtain t where
    t: "timers s (timeout pc) = Some t" "timer_id t = n" "timer_reject t = promise pc" by blast
  have shrink: "sound (settle (promise pc) v (clearPendingFunctionCall n s))" for v
  proof (rule sound_shrink [OF s])
    let ?s' = "settle (promise pc) v (clearPendingFunctionCall n s)"
    show "config ?s' = config s" "nextPromise ?s' = nextPromise s" "nextTimer ?s' = nextTimer s"
      "listeners ?s' = listeners s"
      by (simp_all add: settle_fields clearPendingFunctionCall_fields)
    show "timers ?s' \<subseteq>\<^sub>m timers s"
      by (auto simp: settle_fields clearPendingFunctionCall_fields map_le_def split: option.splits)
    show "pendingFunctionCalls ?s' \<subseteq>\<^sub>m pendingFunctionCalls s"
      by (auto simp: settle_fields clearPendingFunctionCall_fields map_le_def)
    show "timers ?s' (timeout pc') \<noteq> None" if "pendingFunctionCalls ?s' i = Some pc'" for i pc'
    proof -
      from that have i: "i \<noteq> n" and pc': "pendingFunctionCalls s i = Some pc'"
        by (auto simp: settle_fields clearPendingFunctionCall_fields split: if_splits)
      from sound_pending [OF s pc'] obtain u where
        u: "timers s (timeout pc') = Some u" "timer_id u = i" by blast
      with t i have "timeout pc' \<noteq> timeout pc" by auto
      with u pc show ?thesis
        by (auto simp: settle_fields clearPendingFunctionCall_fields)
    qed
    show "q < nextPromise s \<and> (\<forall>k u. timers ?s' k = Some u \<longrightarrow> timer_reject u \<noteq> q)"
      if "promises ?s' q \<noteq> promises s q" for q
    proof -
      from that have q: "q = promise pc"
        by (auto simp: settle_fields clearPendingFunctionCall_fields split: option.splits if_splits)
      have "timer_reject u \<noteq> promise pc" if "timers ?s' k = Some u" for k u
      proof -
        from that pc have "k \<noteq> timeout pc" "timers s k = Some u"
          by (auto simp: settle_fields clearPendingFunctionCall_fields split: if_splits)
        with sound_timer_inj [OF s t(1), of k u] t(3) show ?thesis by auto
      qed
      with q sound_timer [OF s t(1)] t(3) show ?thesis by auto
    qed
  qed
  show ?thesis
    using Some a shrink by (simp add: handleFunctionResult_def Let_def)
qed

lemma sound_handleFunctionCall: "sound s \<Longrightarrow> sound (handleFunctionCall c ty i args s)"
  by (simp add: handleFunctionCall_def sound_postMessage sound_functionLoop split: option.splits)

lemma sound_handleBroadcast: "sound s \<Longrightarrow> sound (snd (handleBroadcast d s))"
  by (simp add: handleBroadcast_def sound_broadcastLoop)

lemma sound_dispatch: assumes "sound s" shows "sound (dispatch c d s)"
proof -
  have b: "sound (case handleBroadcast x s of (Normal, s') \<Rightarrow> s'
            | (Throw e, s') \<Rightarrow> s'\<lparr>unhandled := unhandled s' @ [e]\<rparr>)" for x
    using sound_handleBroadcast [OF assms, of x]
    by (cases "handleBroadcast x s") (auto simp: sound_unhandled split: completion.splits)
  show ?thesis
    using assms b
    by (simp add: dispatch_def sound_handleFunctionResult sound_handleFunctionCall
        split: option.splits jsval.splits)
qed

lemma sound_handlePostedMessage: "sound s \<Longrightarrow> sound (handlePostedMessage c raw sender s)"
  by (simp add: handlePostedMessage_def sound_dispatch split: option.splits)

lemma sound_step: "sound s \<Longrightarrow> sound (step c e s)"
  by (cases e)
    (simp_all add: sound_on sound_off broadcast_def sound_postMessage sound_call
      sound_handlePostedMessage sound_fireTimer)

lemma sound_run: "sound s \<Longrightarrow> sound (run c es s)"
  unfolding run_def by (induction es arbitrary: s) (simp_all add: sound_step)

lemma sound_reachable: "sound (run c es (constructor cfg evaluate))"
  by (rule sound_run [OF sound_constructor])

section \<open>The channel key and the inbound filter\<close>

text \<open>
  Claim C5, as the specification words it: the channel key is \<^verbatim>\<open>"__channel"\<close>, followed by
  \<^verbatim>\<open>"_"\<close> and the channel id when one is set. The getter builds the key on another
  prefix, so the key of channel \<^verbatim>\<open>c1\<close> is not \<^verbatim>\<open>__channel_c1\<close>, and the key without a
  channel id is not \<^verbatim>\<open>__channel\<close>.
\<close>

theorem channel_key_counterexample:
  "channel (exampleConfig None (Some ''c1'') (Some 10000)) \<noteq> ''__channel'' @ ''_'' @ ''c1''
   \<and> channel (exampleConfig None None (Some 10000)) \<noteq> ''__channel''"
  by (simp add: channel_def exampleConfig_def)

text \<open>
  Claim C5, amended: the channel key is \<^verbatim>\<open>"__framecast"\<close>, followed by \<^verbatim>\<open>"_"\<close> and the
  configured channel id when that id is a non-empty string, and just \<^verbatim>\<open>"__framecast"\<close>
  when the id is absent or empty; and an inbound message has an effect on the endpoint only
  if it decodes to an object whose \<^verbatim>\<open>channel\<close> property is exactly that key.
\<close>

theorem channel_key:
  "channel cfg =
     (case cfg_channel cfg of
        None \<Rightarrow> ''__framecast''
      | Some c \<Rightarrow> if c = [] then ''__framecast'' else ''__framecast'' @ ''_'' @ c)
   \<and> (handlePostedMessage c raw sender s \<noteq> s \<longrightarrow>
        (\<exists>d. parse c raw = Some d \<and> getProp d ''channel'' = Some (Str (channel (config s)))))"
  by (auto simp: channel_def handlePostedMessage_def split: option.splits if_splits)

theorem channel_key_witness:
  "channel (exampleConfig None (Some ''c1'') (Some 10000)) = ''__framecast_c1''
   \<and> handlePostedMessage exampleCodec (Some (exampleBroadcast ''__framecast_c1'' (Num 1)))
        ''https://a.example'' (exampleEndpoint (exampleConfig None (Some ''c1'') (Some 10000)))
      \<noteq> exampleEndpoint (exampleConfig None (Some ''c1'') (Some 10000))
   \<and> (\<exists>d. parse exampleCodec (Some (exampleBroadcast ''__framecast_c1'' (Num 1))) = Some d
        \<and> getProp d ''channel'' = Some (Str ''__framecast_c1''))"
proof -
  let ?cfg = "exampleConfig None (Some ''c1'') (Some 10000)"
  let ?s = "exampleEndpoint ?cfg"
  let ?raw = "Some (exampleBroadcast ''__framecast_c1'' (Num 1))"
  have ch: "channel ?cfg = ''__framecast_c1''"
    by (simp add: channel_def exampleConfig_def)
  have cfg: "config ?s = ?cfg"
    by (simp add: exampleEndpoint_def on_def fresh_def Let_def)
  have "invoked (handlePostedMessage exampleCodec ?raw ''https://a.example'' ?s) \<noteq> invoked ?s"
    by (simp add: handlePostedMessage_def exampleCodec_def exampleBroadcast_def origin_def
        channel_def dispatch_def handleBroadcast_def getField_def exampleEndpoint_def on_def
        fresh_def Let_def set_add_def returning_def exampleConfig_def)
  then have neq: "handlePostedMessage exampleCodec ?raw ''https://a.example'' ?s \<noteq> ?s"
    by auto
  from channel_key [of ?cfg exampleCodec ?raw "''https://a.example''" ?s] neq
  have "\<exists>d. parse exampleCodec ?raw = Some d
          \<and> getProp d ''channel'' = Some (Str (channel (config ?s)))"
    by blast
  with ch cfg neq show ?thesis by simp
qed

text \<open>
  Claim C8: an inbound raw message that fails to decode, or whose sender origin differs
  from the configured origin while that origin is not the wildcard, or whose \<^verbatim>\<open>channel\<close>
  property is not the channel key of the endpoint, leaves the whole state as it was: no
  listener is invoked, nothing is posted, and the listener registry and the table of
  pending calls are unchanged.
\<close>

theorem dropped_message_no_effect:
  assumes "parse c raw = None
     \<or> (origin (config s) \<noteq> ''*'' \<and> sender \<noteq> origin (config s))
     \<or> (\<exists>d. parse c raw = Some d \<and> getProp d ''channel'' \<noteq> Some (Str (channel (config s))))"
  shows "handlePostedMessage c raw sender s = s"
  using assms by (auto simp: handlePostedMessage_def split: option.splits if_splits)

theorem dropped_message_no_effect_witness:
  "parse exampleCodec None = None
   \<and> handlePostedMessage exampleCodec None ''https://a.example''
        (exampleEndpoint (exampleConfig None None (Some 10000)))
      = exampleEndpoint (exampleConfig None None (Some 10000))
   \<and> origin (exampleConfig (Some ''https://a.example'') None (Some 10000)) \<noteq> ''*''
   \<and> ''https://b.example'' \<noteq> origin (exampleConfig (Some ''https://a.example'') None (Some 10000))
   \<and> handlePostedMessage exampleCodec (Some (exampleBroadcast ''__framecast'' (Num 1)))
        ''https://b.example''
        (exampleEndpoint (exampleConfig (Some ''https://a.example'') None (Some 10000)))
      = exampleEndpoint (exampleConfig (Some ''https://a.example'') None (Some 10000))
   \<and> getProp (exampleBroadcast ''__framecast_c2'' (Num 1)) ''channel''
      \<noteq> Some (Str (channel (exampleConfig None (Some ''c1'') (Some 10000))))
   \<and> handlePostedMessage exampleCodec (Some (exampleBroadcast ''__framecast_c2'' (Num 1)))
        ''https://a.example'' (exampleEndpoint (exampleConfig None (Some ''c1'') (Some 10000)))
      = exampleEndpoint (exampleConfig None (Some ''c1'') (Some 10000))"
proof -
  have cfg: "config (exampleEndpoint k) = k" for k
    by (simp add: exampleEndpoint_def on_def fresh_def Let_def)
  have 1: "parse exampleCodec None = None"
    by (simp add: exampleCodec_def)
  have 2: "origin (exampleConfig (Some ''https://a.example'') None (Some 10000)) \<noteq> ''*''
     \<and> ''https://b.example'' \<noteq> origin (exampleConfig (Some ''https://a.example'') None (Some 10000))"
    by (simp add: origin_def exampleConfig_def)
  have 3: "parse exampleCodec (Some (exampleBroadcast ''__framecast_c2'' (Num 1)))
        = Some (exampleBroadcast ''__framecast_c2'' (Num 1))
     \<and> getProp (exampleBroadcast ''__framecast_c2'' (Num 1)) ''channel''
      \<noteq> Some (Str (channel (exampleConfig None (Some ''c1'') (Some 10000))))"
    by (simp add: exampleCodec_def exampleBroadcast_def channel_def exampleConfig_def)
  show ?thesis
    using 1 2 3
      dropped_message_no_effect [of exampleCodec None
        "exampleEndpoint (exampleConfig None None (Some 10000))" "''https://a.example''"]
      dropped_message_no_effect [of exampleCodec
        "Some (exampleBroadcast ''__framecast'' (Num 1))"
        "exampleEndpoint (exampleConfig (Some ''https://a.example'') None (Some 10000))"
        "''https://b.example''"]
      dropped_message_no_effect [of exampleCodec
        "Some (exampleBroadcast ''__framecast_c2'' (Num 1))"
        "exampleEndpoint (exampleConfig None (Some ''c1'') (Some 10000))" "''https://a.example''"]
    by (simp add: cfg)
qed

section \<open>The broadcast loop\<close>

lemma broadcastLoop_all:
  "\<forall>l\<in>set ls. \<forall>e. body l [d] \<noteq> Throws e \<Longrightarrow>
   broadcastLoop ls d s = (Normal, s\<lparr>invoked := invoked s @ map (\<lambda>l. (l, [d])) ls\<rparr>)"
  by (induction ls arbitrary: s) (auto simp: Let_def split: outcome.splits)

lemma broadcastLoop_stop:
  "\<forall>l\<in>set pre. \<forall>e. body l [d] \<noteq> Throws e \<Longrightarrow> body l [d] = Throws e \<Longrightarrow>
   broadcastLoop (pre @ l # post) d s
     = (Throw e, s\<lparr>invoked := invoked s @ map (\<lambda>l. (l, [d])) (pre @ [l])\<rparr>)"
  by (induction pre arbitrary: s) (auto simp: Let_def split: outcome.splits)



section \<open>Broadcast dispatch\<close>

text \<open>
  Claim C4, as the specification words it: an exception thrown by one broadcast listener
  does not keep the remaining listeners from being invoked. With a first listener that
  throws and a second one registered after it, the dispatch invokes the first and never
  the second.
\<close>

theorem broadcast_stops_at_throw_counterexample:
  "listeners (snd (on ''broadcast'' (returning 2 Undefined)
       (snd (on ''broadcast'' (throwing 1 (Error ''boom'')) (fresh (exampleConfig None None (Some 10000)))))))
     ''broadcast'' = Some [throwing 1 (Error ''boom''), returning 2 Undefined]
   \<and> invoked (snd (handleBroadcast (Num 7)
       (snd (on ''broadcast'' (returning 2 Undefined)
         (snd (on ''broadcast'' (throwing 1 (Error ''boom'')) (fresh (exampleConfig None None (Some 10000)))))))))
     = [(throwing 1 (Error ''boom''), [Num 7])]"
  by (simp add: handleBroadcast_def on_def fresh_def Let_def set_add_def returning_def throwing_def
      startsWith_def)

text \<open>
  Claim C4, amended: the dispatch of a broadcast invokes the registered broadcast
  listeners in registration order, each with the same data value, up to and including the
  first listener that throws; the listeners registered after that one are not invoked and
  the dispatch ends with the exception. When no listener throws, every registered listener
  is invoked.
\<close>

theorem broadcast_in_order_until_throw:
  "(listeners s ''broadcast'' = Some ls \<and> (\<forall>l\<in>set ls. \<forall>e. body l [d] \<noteq> Throws e) \<longrightarrow>
      handleBroadcast d s = (Normal, s\<lparr>invoked := invoked s @ map (\<lambda>l. (l, [d])) ls\<rparr>))
   \<and> (listeners s ''broadcast'' = Some (pre @ l # post)
        \<and> (\<forall>l'\<in>set pre. \<forall>e. body l' [d] \<noteq> Throws e) \<and> body l [d] = Throws e \<longrightarrow>
      handleBroadcast d s
        = (Throw e, s\<lparr>invoked := invoked s @ map (\<lambda>l. (l, [d])) (pre @ [l])\<rparr>))"
  by (simp add: handleBroadcast_def broadcastLoop_all broadcastLoop_stop)

theorem broadcast_in_order_until_throw_witness:
  "handleBroadcast (Num 7)
     (snd (on ''broadcast'' (returning 2 Null)
       (snd (on ''broadcast'' (returning 1 Undefined) (fresh (exampleConfig None None (Some 10000)) :: jsval option framecast)))))
   = (Normal,
      (snd (on ''broadcast'' (returning 2 Null)
        (snd (on ''broadcast'' (returning 1 Undefined) (fresh (exampleConfig None None (Some 10000)))))))
      \<lparr>invoked := [(returning 1 Undefined, [Num 7]), (returning 2 Null, [Num 7])]\<rparr>)
   \<and> handleBroadcast (Num 7)
     (snd (on ''broadcast'' (returning 3 Null)
       (snd (on ''broadcast'' (throwing 2 (Error ''boom''))
         (snd (on ''broadcast'' (returning 1 Undefined) (fresh (exampleConfig None None (Some 10000)) :: jsval option framecast)))))))
   = (Throw (Error ''boom''),
      (snd (on ''broadcast'' (returning 3 Null)
        (snd (on ''broadcast'' (throwing 2 (Error ''boom''))
          (snd (on ''broadcast'' (returning 1 Undefined) (fresh (exampleConfig None None (Some 10000)))))))))
      \<lparr>invoked := [(returning 1 Undefined, [Num 7]), (throwing 2 (Error ''boom''), [Num 7])]\<rparr>)"
proof -
  let ?f = "fresh (exampleConfig None None (Some 10000)) :: jsval option framecast"
  let ?a = "snd (on ''broadcast'' (returning 2 Null) (snd (on ''broadcast'' (returning 1 Undefined) ?f)))"
  let ?b = "snd (on ''broadcast'' (returning 3 Null)
       (snd (on ''broadcast'' (throwing 2 (Error ''boom''))
         (snd (on ''broadcast'' (returning 1 Undefined) ?f)))))"
  have a: "listeners ?a ''broadcast'' = Some [returning 1 Undefined, returning 2 Null]"
    "invoked ?a = []"
    by (simp_all add: on_def fresh_def Let_def set_add_def returning_def startsWith_def)
  have b: "listeners ?b ''broadcast''
      = Some ([returning 1 Undefined] @ throwing 2 (Error ''boom'') # [returning 3 Null])"
    "invoked ?b = []"
    by (simp_all add: on_def fresh_def Let_def set_add_def returning_def throwing_def startsWith_def)
  have na: "\<forall>l\<in>set [returning 1 Undefined, returning 2 Null]. \<forall>e. body l [Num 7] \<noteq> Throws e"
    by (simp add: returning_def)
  have nb: "(\<forall>l'\<in>set [returning 1 Undefined]. \<forall>e. body l' [Num 7] \<noteq> Throws e)
      \<and> body (throwing 2 (Error ''boom'')) [Num 7] = Throws (Error ''boom'')"
    by (simp add: returning_def throwing_def)
  from broadcast_in_order_until_throw
         [of ?a "[returning 1 Undefined, returning 2 Null]" "Num 7" "[]" "returning 1 Undefined" "[]" Null]
       a na
  have 1: "handleBroadcast (Num 7) ?a
      = (Normal, ?a\<lparr>invoked := [(returning 1 Undefined, [Num 7]), (returning 2 Null, [Num 7])]\<rparr>)"
    by simp
  from broadcast_in_order_until_throw
         [of ?b "[]" "Num 7" "[returning 1 Undefined]" "throwing 2 (Error ''boom'')"
             "[returning 3 Null]" "Error ''boom''"]
       b nb
  have 2: "handleBroadcast (Num 7) ?b
      = (Throw (Error ''boom''),
         ?b\<lparr>invoked := [(returning 1 Undefined, [Num 7]), (throwing 2 (Error ''boom''), [Num 7])]\<rparr>)"
    by simp
  from 1 2 show ?thesis by blast
qed



section \<open>Registration of function listeners\<close>

text \<open>
  Claim C6: for a key \<^verbatim>\<open>function:<name>\<close> that has a handler, \<^verbatim>\<open>on\<close> throws the error
  \<^verbatim>\<open>Listener already exists for function:<name>\<close> and leaves the state unchanged; after
  \<^verbatim>\<open>off\<close> has removed the first handler, \<^verbatim>\<open>on\<close> with a second handler succeeds and that
  handler is the registered one; under \<^verbatim>\<open>broadcast\<close>, \<^verbatim>\<open>on\<close> never throws and adds the
  listener to those already there.
\<close>

theorem function_key_single_listener:
  "(listeners s (''function:'' @ name) = Some ls \<and> ls \<noteq> [] \<longrightarrow>
      on (''function:'' @ name) cb s
        = (Throw (Error (''Listener already exists for '' @ ''function:'' @ name)), s))
   \<and> (listeners s (''function:'' @ name) = Some [first] \<longrightarrow>
      on (''function:'' @ name) second (off (''function:'' @ name) first s)
        = (Normal, s\<lparr>listeners := (listeners s)(''function:'' @ name \<mapsto> [second])\<rparr>))
   \<and> fst (on ''broadcast'' cb s) = Normal
   \<and> (listeners s ''broadcast'' = Some ls' \<longrightarrow>
        (\<exists>ls''. listeners (snd (on ''broadcast'' cb s)) ''broadcast'' = Some ls''
           \<and> set ls'' = insert cb (set ls')))"
  by (auto simp: on_def off_def Let_def startsWith_def set_add_def set_delete_def)

theorem function_key_single_listener_witness:
  "listeners (snd (on ''function:double'' (returning 1 (Num 10)) (fresh (exampleConfig None None (Some 10000)) :: jsval option framecast)))
     (''function:'' @ ''double'') = Some [returning 1 (Num 10)]
   \<and> on (''function:'' @ ''double'') (returning 2 (Num 20))
        (snd (on ''function:double'' (returning 1 (Num 10)) (fresh (exampleConfig None None (Some 10000)) :: jsval option framecast)))
      = (Throw (Error ''Listener already exists for function:double''),
         snd (on ''function:double'' (returning 1 (Num 10)) (fresh (exampleConfig None None (Some 10000)))))
   \<and> listeners (snd (on (''function:'' @ ''double'') (returning 2 (Num 20))
        (off (''function:'' @ ''double'') (returning 1 (Num 10))
          (snd (on ''function:double'' (returning 1 (Num 10)) (fresh (exampleConfig None None (Some 10000)) :: jsval option framecast))))))
        ''function:double'' = Some [returning 2 (Num 20)]
   \<and> listeners (exampleEndpoint (exampleConfig None None (Some 10000))) ''broadcast''
      = Some [returning 1 Undefined]
   \<and> (\<exists>ls''. listeners (snd (on ''broadcast'' (returning 2 (Num 20))
              (exampleEndpoint (exampleConfig None None (Some 10000))))) ''broadcast'' = Some ls''
         \<and> set ls'' = insert (returning 2 (Num 20)) (set [returning 1 Undefined]))"
proof -
  define s :: "jsval option framecast" where
    "s = snd (on ''function:double'' (returning 1 (Num 10)) (fresh (exampleConfig None None (Some 10000))))"
  define e where "e = exampleEndpoint (exampleConfig None None (Some 10000))"
  define k where "k = ''function:'' @ ''double''"
  have reg: "listeners s k = Some [returning 1 (Num 10)]"
    by (simp add: s_def k_def on_def fresh_def Let_def set_add_def startsWith_def)
  have regb: "listeners e ''broadcast'' = Some [returning 1 Undefined]"
    by (simp add: e_def exampleEndpoint_def on_def fresh_def Let_def set_add_def startsWith_def)
  note T = function_key_single_listener
         [of s "''double''" "[returning 1 (Num 10)]" "returning 2 (Num 20)" "returning 1 (Num 10)"
             "returning 2 (Num 20)" "[]", folded k_def]
  note U = function_key_single_listener
         [of e "''double''" "[]" "returning 2 (Num 20)" "returning 1 (Num 10)"
             "returning 2 (Num 20)" "[returning 1 Undefined]"]
  from T reg have 1: "on k (returning 2 (Num 20)) s
        = (Throw (Error (''Listener already exists for '' @ k)), s)"
    by simp
  from T reg have "on k (returning 2 (Num 20)) (off k (returning 1 (Num 10)) s)
        = (Normal, s\<lparr>listeners := (listeners s)(k \<mapsto> [returning 2 (Num 20)])\<rparr>)"
    by simp
  then have 2: "listeners (snd (on k (returning 2 (Num 20)) (off k (returning 1 (Num 10)) s))) k
        = Some [returning 2 (Num 20)]"
    by simp
  from U regb have 3: "\<exists>ls''. listeners (snd (on ''broadcast'' (returning 2 (Num 20)) e)) ''broadcast'' = Some ls''
           \<and> set ls'' = insert (returning 2 (Num 20)) (set [returning 1 Undefined])"
    by simp
  have k: "k = ''function:double''" by (simp add: k_def)
  from reg 1 2 regb 3 show ?thesis
    unfolding s_def [symmetric] e_def [symmetric] by (simp add: k)
qed

section \<open>The timeout guard of \<^verbatim>\<open>call\<close>\<close>

text \<open>
  Claim C9: \<^verbatim>\<open>call\<close> fails with the error about \<^verbatim>\<open>config.functionTimeoutMs\<close> exactly when
  the configured timeout is zero or absent. In that case nothing is registered, scheduled
  or sent. With any other value, a negative one included, the promise stays unsettled,
  the pending entry is stored under the id, the timer is scheduled and the envelope is
  posted.
\<close>

theorem call_timeout_guard:
  assumes "sound s"
  shows "fst (call c f args now s) = nextPromise s
    \<and> ((promises (snd (call c f args now s)) (nextPromise s)
           = Some (Rejected (Error ''Framecast.call() requires a config.functionTimeoutMs to be set'')))
         \<longleftrightarrow> (cfg_functionTimeoutMs (config s) = None \<or> cfg_functionTimeoutMs (config s) = Some 0))
    \<and> (cfg_functionTimeoutMs (config s) = None \<or> cfg_functionTimeoutMs (config s) = Some 0 \<longrightarrow>
           pendingFunctionCalls (snd (call c f args now s)) = pendingFunctionCalls s
         \<and> posted (snd (call c f args now s)) = posted s
         \<and> timers (snd (call c f args now s)) = timers s)
    \<and> (\<forall>ms. cfg_functionTimeoutMs (config s) = Some ms \<and> ms \<noteq> 0 \<longrightarrow>
           promises (snd (call c f args now s)) = promises s
         \<and> pendingFunctionCalls (snd (call c f args now s))
             = (pendingFunctionCalls s)(now \<mapsto> \<lparr>timeout = nextTimer s, promise = nextPromise s\<rparr>)
         \<and> timers (snd (call c f args now s))
             = (timers s)(nextTimer s \<mapsto> \<lparr>timer_id = now, timer_functionName = f,
                                          timer_reject = nextPromise s, delay = ms\<rparr>)
         \<and> posted (snd (call c f args now s))
             = posted s @ [(stringify c (Obj [(''id'', Num now), (''args'', Arr args),
                                              (''type'', Str (''function:'' @ f)),
                                              (''channel'', Str (channel (config s)))]),
                            origin (config s))])"
proof -
  have un: "promises s (nextPromise s) = None"
    using sound_promises [OF assms, of "nextPromise s"] by simp
  have 1: "fst (call c f args now s) = nextPromise s"
    by (simp add: call_def Let_def split: option.splits)
  have 2: "(promises (snd (call c f args now s)) (nextPromise s)
           = Some (Rejected (Error ''Framecast.call() requires a config.functionTimeoutMs to be set'')))
         \<longleftrightarrow> (cfg_functionTimeoutMs (config s) = None \<or> cfg_functionTimeoutMs (config s) = Some 0)"
    using un by (auto simp: call_def Let_def settle_def postMessage_def timeoutNotSet_def
        split: option.splits)
  have 3: "cfg_functionTimeoutMs (config s) = None \<or> cfg_functionTimeoutMs (config s) = Some 0 \<longrightarrow>
           pendingFunctionCalls (snd (call c f args now s)) = pendingFunctionCalls s
         \<and> posted (snd (call c f args now s)) = posted s
         \<and> timers (snd (call c f args now s)) = timers s"
    by (auto simp: call_def Let_def settle_fields)
  have 4: "\<forall>ms. cfg_functionTimeoutMs (config s) = Some ms \<and> ms \<noteq> 0 \<longrightarrow>
           promises (snd (call c f args now s)) = promises s
         \<and> pendingFunctionCalls (snd (call c f args now s))
             = (pendingFunctionCalls s)(now \<mapsto> \<lparr>timeout = nextTimer s, promise = nextPromise s\<rparr>)
         \<and> timers (snd (call c f args now s))
             = (timers s)(nextTimer s \<mapsto> \<lparr>timer_id = now, timer_functionName = f,
                                          timer_reject = nextPromise s, delay = ms\<rparr>)
         \<and> posted (snd (call c f args now s))
             = posted s @ [(stringify c (Obj [(''id'', Num now), (''args'', Arr args),
                                              (''type'', Str (''function:'' @ f)),
                                              (''channel'', Str (channel (config s)))]),
                            origin (config s))]"
    by (auto simp: call_def Let_def postMessage_def envelope_def)
  from 1 2 3 4 show ?thesis by blast
qed

theorem call_timeout_guard_witness:
  "sound (fresh (exampleConfig None None (Some (- 5))) :: jsval option framecast)
   \<and> cfg_functionTimeoutMs (config (fresh (exampleConfig None None (Some (- 5))) :: jsval option framecast))
       = Some (- 5)
   \<and> promises (snd (call exampleCodec ''f'' [] 1000 (fresh (exampleConfig None None (Some (- 5)))))) 0
       = None
   \<and> pendingFunctionCalls
        (snd (call exampleCodec ''f'' [] 1000 (fresh (exampleConfig None None (Some (- 5)))))) 1000
       = Some \<lparr>timeout = 0, promise = 0\<rparr>
   \<and> posted (snd (call exampleCodec ''f'' [] 1000 (fresh (exampleConfig None None (Some (- 5))))))
       = [(Some (Obj [(''id'', Num 1000), (''args'', Arr []), (''type'', Str ''function:f''),
                      (''channel'', Str ''__framecast'')]), ''*'')]
   \<and> cfg_functionTimeoutMs (config (fresh (exampleConfig None None (Some 0)) :: jsval option framecast))
       = Some 0
   \<and> promises (snd (call exampleCodec ''f'' [] 1000 (fresh (exampleConfig None None (Some 0))))) 0
       = Some (Rejected (Error ''Framecast.call() requires a config.functionTimeoutMs to be set''))
   \<and> posted (snd (call exampleCodec ''f'' [] 1000 (fresh (exampleConfig None None (Some 0))))) = []"
proof -
  define s :: "jsval option framecast" where "s = fresh (exampleConfig None None (Some (- 5)))"
  define z :: "jsval option framecast" where "z = fresh (exampleConfig None None (Some 0))"
  have s: "sound s" and z: "sound z"
    unfolding s_def z_def by (rule sound_fresh)+
  have cfg: "cfg_functionTimeoutMs (config s) = Some (- 5)" "cfg_functionTimeoutMs (config z) = Some 0"
    by (simp_all add: s_def z_def fresh_def exampleConfig_def)
  have fs: "promises s = Map.empty" "pendingFunctionCalls s = Map.empty" "posted s = []"
    "nextTimer s = 0" "nextPromise s = 0" "channel (config s) = ''__framecast''"
    "origin (config s) = ''*''"
    by (simp_all add: s_def fresh_def exampleConfig_def channel_def origin_def)
  have fz: "posted z = []" "nextPromise z = 0"
    by (simp_all add: z_def fresh_def)
  note S = call_timeout_guard [OF s, of exampleCodec "''f''" "[]" 1000]
  note Z = call_timeout_guard [OF z, of exampleCodec "''f''" "[]" 1000]
  from S cfg(1) have 1: "promises (snd (call exampleCodec ''f'' [] 1000 s)) = promises s
      \<and> pendingFunctionCalls (snd (call exampleCodec ''f'' [] 1000 s))
           = (pendingFunctionCalls s)(1000 \<mapsto> \<lparr>timeout = nextTimer s, promise = nextPromise s\<rparr>)
      \<and> posted (snd (call exampleCodec ''f'' [] 1000 s))
           = posted s @ [(stringify exampleCodec (Obj [(''id'', Num 1000), (''args'', Arr []),
                                              (''type'', Str (''function:'' @ ''f'')),
                                              (''channel'', Str (channel (config s)))]),
                            origin (config s))]"
    by simp
  from Z cfg(2) have 2: "promises (snd (call exampleCodec ''f'' [] 1000 z)) (nextPromise z)
       = Some (Rejected (Error ''Framecast.call() requires a config.functionTimeoutMs to be set''))
      \<and> posted (snd (call exampleCodec ''f'' [] 1000 z)) = posted z"
    by simp
  from s cfg 1 2 show ?thesis
    unfolding s_def [symmetric] z_def [symmetric] by (simp add: fs fz exampleCodec_def)
qed

section \<open>Calls, replies and timeouts\<close>

lemma handlePostedMessage_dispatch:
  "parse c raw = Some d \<Longrightarrow> origin (config s) = ''*'' \<or> sender = origin (config s) \<Longrightarrow>
   getProp d ''channel'' = Some (Str (channel (config s))) \<Longrightarrow>
   handlePostedMessage c raw sender s = dispatch c d s"
  by (auto simp: handlePostedMessage_def)

lemma dispatch_function:
  "getProp d ''type'' = Some (Str (''function:'' @ name)) \<Longrightarrow>
   dispatch c d s
     = handleFunctionCall c (''function:'' @ name) (getField d ''id'') (getField d ''args'') s"
  by (simp add: dispatch_def startsWith_def)

lemma dispatch_result:
  "getProp d ''type'' = Some (Str ''functionResult'') \<Longrightarrow> dispatch c d s = handleFunctionResult d s"
  by (simp add: dispatch_def)

lemma handleFunctionCall_none:
  "listeners s ty = None \<or> listeners s ty = Some [] \<Longrightarrow>
   handleFunctionCall c ty i args s
     = s\<lparr>posted := posted s @
          [(stringify c (Obj [(''id'', i), (''error'', Error (''No listeners for '' @ ty)),
                              (''type'', Str ''functionResult''),
                              (''channel'', Str (channel (config s)))]),
            origin (config s))]\<rparr>"
  by (auto simp: handleFunctionCall_def postMessage_def envelope_def)

lemma handleFunctionCall_returns:
  "listeners s ty = Some [l] \<Longrightarrow> body l xs = Returns v \<Longrightarrow>
   handleFunctionCall c ty i (Arr xs) s
     = s\<lparr>invoked := invoked s @ [(l, xs)],
         posted := posted s @
          [(stringify c (Obj [(''id'', i), (''result'', v), (''type'', Str ''functionResult''),
                              (''channel'', Str (channel (config s)))]),
            origin (config s))]\<rparr>"
  by (simp add: handleFunctionCall_def postMessage_def envelope_def Let_def)

lemma handleFunctionCall_raises:
  "listeners s ty = Some [l] \<Longrightarrow> body l xs = Throws e \<or> body l xs = Rejects e \<Longrightarrow>
   handleFunctionCall c ty i (Arr xs) s
     = s\<lparr>invoked := invoked s @ [(l, xs)],
         posted := posted s @
          [(stringify c (Obj [(''id'', i), (''error'', e), (''type'', Str ''functionResult''),
                              (''channel'', Str (channel (config s)))]),
            origin (config s))]\<rparr>"
  by (auto simp: handleFunctionCall_def postMessage_def envelope_def Let_def)

lemma call_scheduled:
  assumes "cfg_functionTimeoutMs (config s) = Some ms" "ms \<noteq> 0"
  shows "call c f args now s =
     (nextPromise s,
      s\<lparr>nextPromise := Suc (nextPromise s), nextTimer := Suc (nextTimer s),
        timers := (timers s)(nextTimer s \<mapsto>
           \<lparr>timer_id = now, timer_functionName = f, timer_reject = nextPromise s, delay = ms\<rparr>),
        pendingFunctionCalls := (pendingFunctionCalls s)(now \<mapsto>
           \<lparr>timeout = nextTimer s, promise = nextPromise s\<rparr>),
        posted := posted s @
           [(stringify c (Obj [(''id'', Num now), (''args'', Arr args),
                               (''type'', Str (''function:'' @ f)),
                               (''channel'', Str (channel (config s)))]),
             origin (config s))]\<rparr>)"
  using assms by (simp add: call_def Let_def postMessage_def envelope_def)

lemma handleFunctionResult_settles:
  assumes "pendingFunctionCalls s i = Some pc" "getField d ''id'' = Num i"
    and "promises s (promise pc) = None"
  shows "handleFunctionResult d s =
     s\<lparr>pendingFunctionCalls := (pendingFunctionCalls s)(i := None),
       timers := (timers s)(timeout pc := None),
       promises := (promises s)(promise pc \<mapsto>
          (if truthy (getField d ''error'') then Rejected (getField d ''error'')
           else Resolved (getField d ''result'')))\<rparr>"
  using assms
  by (simp add: handleFunctionResult_def getPending_def Let_def clearPendingFunctionCall_def
      clearTimeout_def settle_def)

lemma handleFunctionResult_unknown:
  "getField d ''id'' = Num i \<Longrightarrow> pendingFunctionCalls s i = None \<Longrightarrow> handleFunctionResult d s = s"
  by (simp add: handleFunctionResult_def getPending_def)

lemma fireTimer_pending:
  assumes "pendingFunctionCalls s i = Some pc" "timers s (timeout pc) = Some t" "timer_id t = i"
    and "timer_reject t = promise pc" "promises s (promise pc) = None"
  shows "fireTimer (timeout pc) s =
     s\<lparr>timers := (timers s)(timeout pc := None),
       pendingFunctionCalls := (pendingFunctionCalls s)(i := None),
       promises := (promises s)(promise pc \<mapsto>
          Rejected (timedOut (config s) (timer_functionName t)))\<rparr>"
  using assms
  by (simp add: fireTimer_def Let_def clearPendingFunctionCall_def clearTimeout_def settle_def)

lemma fireTimer_cleared: "timers s h = None \<Longrightarrow> fireTimer h s = s"
  by (simp add: fireTimer_def)

lemma exampleConfig_getters:
  "channel (exampleConfig orig None ms) = ''__framecast''"
  "channel (exampleConfig orig (Some ''c1'') ms) = ''__framecast_c1''"
  "origin (exampleConfig None chan ms) = ''*''"
  by (simp_all add: channel_def origin_def exampleConfig_def)

lemma twoCalls_fields:
  "config twoCalls = exampleConfig None None (Some 10000)"
  "posted twoCalls = [(Some (exampleCall ''__framecast'' ''f'' 1000 []), ''*''),
                      (Some (exampleCall ''__framecast'' ''g'' 1000 []), ''*'')]"
  "pendingFunctionCalls twoCalls = [1000 \<mapsto> \<lparr>timeout = 1, promise = 1\<rparr>]"
  "promises twoCalls = Map.empty"
  "timers twoCalls = [0 \<mapsto> \<lparr>timer_id = 1000, timer_functionName = ''f'', timer_reject = 0, delay = 10000\<rparr>,
                      1 \<mapsto> \<lparr>timer_id = 1000, timer_functionName = ''g'', timer_reject = 1, delay = 10000\<rparr>]"
  by (simp_all add: twoCalls_def run_def call_def Let_def fresh_def exampleConfig_def
      postMessage_def envelope_def exampleCodec_def exampleCall_def channel_def origin_def)

lemma responder_fields:
  "config responder = exampleConfig None None (Some 10000)"
  "listeners responder ''function:f'' = Some [returning 1 (Str ''from f'')]"
  "listeners responder ''function:g'' = Some [returning 2 (Str ''from g'')]"
  "posted responder = []"
  by (simp_all add: responder_def run_def on_def Let_def fresh_def set_add_def startsWith_def)

lemma doubler_fields:
  "config doubler = exampleConfig None (Some ''c1'') (Some 10000)"
  "listeners doubler ''function:double'' = Some [doubling 1]"
  "listeners doubler ''function:missingFn'' = None"
  "posted doubler = []" "invoked doubler = []"
  by (simp_all add: doubler_def on_def Let_def fresh_def set_add_def startsWith_def)

lemma slowCall_fields:
  "config slowCall = exampleConfig None None (Some 50)"
  "pendingFunctionCalls slowCall = [1000 \<mapsto> \<lparr>timeout = 0, promise = 0\<rparr>]"
  "timers slowCall = [0 \<mapsto> \<lparr>timer_id = 1000, timer_functionName = ''slow'', timer_reject = 0, delay = 50\<rparr>]"
  "promises slowCall = Map.empty"
  by (simp_all add: slowCall_def call_def Let_def fresh_def exampleConfig_def postMessage_def)

lemma run_Nil: "run c [] s = s"
  by (simp add: run_def)

lemma run_Cons: "run c (e # es) s = run c es (step c e s)"
  by (simp add: run_def)

lemma message_to_twoCalls:
  "handlePostedMessage exampleCodec (Some (exampleResult ''__framecast'' 1000 v)) sender twoCalls
     = twoCalls\<lparr>pendingFunctionCalls := Map.empty,
         timers := [0 \<mapsto> \<lparr>timer_id = 1000, timer_functionName = ''f'', timer_reject = 0,
                          delay = 10000\<rparr>],
         promises := [1 \<mapsto> Resolved v]\<rparr>"
proof -
  have "handlePostedMessage exampleCodec (Some (exampleResult ''__framecast'' 1000 v)) sender twoCalls
      = handleFunctionResult (exampleResult ''__framecast'' 1000 v) twoCalls"
    by (simp add: handlePostedMessage_def exampleCodec_def twoCalls_fields exampleConfig_getters
        exampleResult_def dispatch_def)
  also have "\<dots> = twoCalls\<lparr>pendingFunctionCalls := Map.empty,
         timers := [0 \<mapsto> \<lparr>timer_id = 1000, timer_functionName = ''f'', timer_reject = 0,
                          delay = 10000\<rparr>],
         promises := [1 \<mapsto> Resolved v]\<rparr>"
    using handleFunctionResult_settles [of twoCalls 1000 "\<lparr>timeout = 1, promise = 1\<rparr>"
        "exampleResult ''__framecast'' 1000 v"]
    by (simp add: twoCalls_fields exampleResult_def getField_def fun_upd_twist)
  finally show ?thesis .
qed

text \<open>
  Claim C7: an inbound \<^verbatim>\<open>function:<name>\<close> envelope that passes the origin and channel
  filters, on an endpoint with no listener under that exact key, makes the endpoint post
  one \<^verbatim>\<open>functionResult\<close> envelope with the id of the call and the error
  \<^verbatim>\<open>No listeners for function:<name>\<close>, and nothing else changes (no listener runs, no
  rejection is left unhandled). With a listener registered, the listener is invoked with
  the argument list of the call, and the endpoint posts \<^verbatim>\<open>{id, result}\<close> when the listener
  returns and \<^verbatim>\<open>{id, error}\<close> when it throws or rejects; the error is in the reply and not
  among the unhandled rejections.
\<close>

theorem function_call_reply:
  assumes "parse c raw = Some d"
    and "origin (config s) = ''*'' \<or> sender = origin (config s)"
    and "getProp d ''channel'' = Some (Str (channel (config s)))"
    and "getProp d ''type'' = Some (Str (''function:'' @ name))"
  shows "(listeners s (''function:'' @ name) = None \<or> listeners s (''function:'' @ name) = Some [] \<longrightarrow>
      handlePostedMessage c raw sender s
        = s\<lparr>posted := posted s @
            [(stringify c (Obj [(''id'', getField d ''id''),
                                (''error'', Error (''No listeners for '' @ ''function:'' @ name)),
                                (''type'', Str ''functionResult''),
                                (''channel'', Str (channel (config s)))]),
              origin (config s))]\<rparr>)
    \<and> (listeners s (''function:'' @ name) = Some [l] \<and> getField d ''args'' = Arr xs \<longrightarrow>
         (\<forall>v. body l xs = Returns v \<longrightarrow>
            handlePostedMessage c raw sender s
              = s\<lparr>invoked := invoked s @ [(l, xs)],
                  posted := posted s @
                    [(stringify c (Obj [(''id'', getField d ''id''), (''result'', v),
                                        (''type'', Str ''functionResult''),
                                        (''channel'', Str (channel (config s)))]),
                      origin (config s))]\<rparr>)
       \<and> (\<forall>e. body l xs = Throws e \<or> body l xs = Rejects e \<longrightarrow>
            handlePostedMessage c raw sender s
              = s\<lparr>invoked := invoked s @ [(l, xs)],
                  posted := posted s @
                    [(stringify c (Obj [(''id'', getField d ''id''), (''error'', e),
                                        (''type'', Str ''functionResult''),
                                        (''channel'', Str (channel (config s)))]),
                      origin (config s))]\<rparr>))"
proof -
  have eq: "handlePostedMessage c raw sender s
      = handleFunctionCall c (''function:'' @ name) (getField d ''id'') (getField d ''args'') s"
    using handlePostedMessage_dispatch [OF assms(1-3)] dispatch_function [OF assms(4)] by simp
  show ?thesis
    unfolding eq
    using handleFunctionCall_none [of s "''function:'' @ name" c "getField d ''id''" "getField d ''args''"]
      handleFunctionCall_returns [of s "''function:'' @ name" l xs _ c "getField d ''id''"]
      handleFunctionCall_raises [of s "''function:'' @ name" l xs _ c "getField d ''id''"]
    by (intro conjI impI allI) (simp_all del: append.simps)
qed

theorem function_call_reply_witness:
  "handlePostedMessage exampleCodec (Some (exampleCall ''__framecast_c1'' ''double'' 1000 [Num 5]))
     ''https://a.example'' doubler
   = doubler\<lparr>invoked := [(doubling 1, [Num 5])],
             posted := [(Some (exampleResult ''__framecast_c1'' 1000 (Num 10)), ''*'')]\<rparr>
   \<and> handlePostedMessage exampleCodec (Some (exampleCall ''__framecast_c1'' ''missingFn'' 1001 []))
     ''https://a.example'' doubler
   = doubler\<lparr>posted := [(Some (Obj [(''id'', Num 1001),
                                      (''error'', Error ''No listeners for function:missingFn''),
                                      (''type'', Str ''functionResult''),
                                      (''channel'', Str ''__framecast_c1'')]), ''*'')]\<rparr>
   \<and> handlePostedMessage exampleCodec (Some (exampleCall ''__framecast_c1'' ''double'' 1002 []))
     ''https://a.example'' doubler
   = doubler\<lparr>invoked := [(doubling 1, [])],
             posted := [(Some (Obj [(''id'', Num 1002),
                                      (''error'', Error ''expected one number''),
                                      (''type'', Str ''functionResult''),
                                      (''channel'', Str ''__framecast_c1'')]), ''*'')]\<rparr>"
proof -
  have d: "getProp (exampleCall ''__framecast_c1'' name i args) ''channel''
             = Some (Str (channel (config doubler)))"
    "getProp (exampleCall ''__framecast_c1'' name i args) ''type'' = Some (Str (''function:'' @ name))"
    "getField (exampleCall ''__framecast_c1'' name i args) ''id'' = Num i"
    "getField (exampleCall ''__framecast_c1'' name i args) ''args'' = Arr args"
    "parse exampleCodec (Some (exampleCall ''__framecast_c1'' name i args))
       = Some (exampleCall ''__framecast_c1'' name i args)"
    for name i args
    by (simp_all add: exampleCall_def getField_def doubler_fields exampleConfig_getters
        exampleCodec_def)
  have o: "origin (config doubler) = ''*'' \<or> ''https://a.example'' = origin (config doubler)"
    by (simp add: doubler_fields exampleConfig_getters)
  have b: "body (doubling 1) [Num 5] = Returns (Num 10)"
    "body (doubling 1) [] = Throws (Error ''expected one number'')"
    by (simp_all add: doubling_def)
  note T = function_call_reply [OF d(5) o d(1) d(2)]
  from T [of "''double''" 1000 "[Num 5]" "doubling 1" "[Num 5]"] b(1)
  have 1: "handlePostedMessage exampleCodec (Some (exampleCall ''__framecast_c1'' ''double'' 1000 [Num 5]))
        ''https://a.example'' doubler
      = doubler\<lparr>invoked := [(doubling 1, [Num 5])],
               posted := [(Some (exampleResult ''__framecast_c1'' 1000 (Num 10)), ''*'')]\<rparr>"
    by (simp add: d doubler_fields exampleConfig_getters exampleCodec_def exampleResult_def)
  from T [of "''missingFn''" 1001 "[]" "doubling 1" "[]"]
  have 2: "handlePostedMessage exampleCodec (Some (exampleCall ''__framecast_c1'' ''missingFn'' 1001 []))
        ''https://a.example'' doubler
      = doubler\<lparr>posted := [(Some (Obj [(''id'', Num 1001),
                                      (''error'', Error ''No listeners for function:missingFn''),
                                      (''type'', Str ''functionResult''),
                                      (''channel'', Str ''__framecast_c1'')]), ''*'')]\<rparr>"
    by (simp add: d doubler_fields exampleConfig_getters exampleCodec_def)
  from T [of "''double''" 1002 "[]" "doubling 1" "[]"] b(2)
  have 3: "handlePostedMessage exampleCodec (Some (exampleCall ''__framecast_c1'' ''double'' 1002 []))
        ''https://a.example'' doubler
      = doubler\<lparr>invoked := [(doubling 1, [])],
               posted := [(Some (Obj [(''id'', Num 1002),
                                      (''error'', Error ''expected one number''),
                                      (''type'', Str ''functionResult''),
                                      (''channel'', Str ''__framecast_c1'')]), ''*'')]\<rparr>"
    by (simp add: d doubler_fields exampleConfig_getters exampleCodec_def)
  from 1 2 3 show ?thesis by (intro conjI)
qed

text \<open>
  One call and its reply, with nothing in between: endpoint \<open>A\<close> calls \<open>name\<close> with \<open>args\<close>;
  the envelope it posts is delivered to a peer \<open>B\<close> on the same channel that has the listener
  \<open>l\<close> under \<^verbatim>\<open>function:<name>\<close>, and the reply of \<open>B\<close> is delivered back to \<open>A\<close> (the codec
  decodes what it encoded, the origin filters let both messages pass, the timer of the call
  has not come due, and \<open>A\<close> issues no other call before the reply). Then \<open>l\<close> was invoked
  with \<open>args\<close>, the promise of the call is resolved with the value \<open>l\<close> returned, and the
  entry under the correlation id is no longer in the table of pending calls of \<open>A\<close>.
\<close>

lemma call_settles_with_listener_value:
  assumes codec: "\<And>x. parse c (stringify c x) = Some x"
    and A: "sound A"
    and ms: "cfg_functionTimeoutMs (config A) = Some ms" "ms \<noteq> 0"
    and ch: "channel (config A) = channel (config B)"
    and oB: "origin (config B) = ''*'' \<or> originA = origin (config B)"
    and oA: "origin (config A) = ''*'' \<or> originB = origin (config A)"
    and l: "listeners B (''function:'' @ name) = Some [l]"
    and v: "body l args = Returns v"
  shows "let (p, A1) = call c name args now A;
             B1 = handlePostedMessage c (fst (last (posted A1))) originA B;
             A2 = handlePostedMessage c (fst (last (posted B1))) originB A1
         in invoked B1 = invoked B @ [(l, args)]
          \<and> promises A1 p = None
          \<and> promises A2 p = Some (Resolved v)
          \<and> pendingFunctionCalls A1 now \<noteq> None
          \<and> pendingFunctionCalls A2 now = None"
proof -
  define A1 where "A1 = snd (call c name args now A)"
  define d1 where "d1 = Obj [(''id'', Num now), (''args'', Arr args),
                             (''type'', Str (''function:'' @ name)),
                             (''channel'', Str (channel (config A)))]"
  define B1 where "B1 = handlePostedMessage c (stringify c d1) originA B"
  define d2 where "d2 = Obj [(''id'', Num now), (''result'', v), (''type'', Str ''functionResult''),
                             (''channel'', Str (channel (config B)))]"
  define A2 where "A2 = handlePostedMessage c (stringify c d2) originB A1"
  have un: "promises A (nextPromise A) = None"
    using sound_promises [OF A, of "nextPromise A"] by simp
  have call: "call c name args now A = (nextPromise A, A1)"
    unfolding A1_def by (simp add: call_scheduled [OF ms])
  have A1: "posted A1 = posted A @ [(stringify c d1, origin (config A))]"
    "promises A1 = promises A" "config A1 = config A"
    "pendingFunctionCalls A1 now = Some \<lparr>timeout = nextTimer A, promise = nextPromise A\<rparr>"
    unfolding A1_def d1_def by (simp_all add: call_scheduled [OF ms])
  have p1: "getProp d1 ''channel'' = Some (Str (channel (config B)))"
    "getProp d1 ''type'' = Some (Str (''function:'' @ name))"
    "getField d1 ''id'' = Num now" "getField d1 ''args'' = Arr args"
    by (simp_all add: d1_def getField_def ch)
  have "B1 = handleFunctionCall c (''function:'' @ name) (Num now) (Arr args) B"
    unfolding B1_def
    using handlePostedMessage_dispatch [OF codec oB p1(1)] dispatch_function [OF p1(2)]
    by (simp add: p1)
  then have B1: "B1 = B\<lparr>invoked := invoked B @ [(l, args)],
                       posted := posted B @ [(stringify c d2, origin (config B))]\<rparr>"
    unfolding d2_def using handleFunctionCall_returns [OF l v, of c "Num now"] by simp
  have p2: "getProp d2 ''channel'' = Some (Str (channel (config A1)))"
    "getProp d2 ''type'' = Some (Str ''functionResult'')"
    "getField d2 ''id'' = Num now" "getField d2 ''error'' = Undefined" "getField d2 ''result'' = v"
    by (simp_all add: d2_def getField_def ch A1)
  have oA1: "origin (config A1) = ''*'' \<or> originB = origin (config A1)"
    using oA by (simp add: A1)
  have "A2 = handleFunctionResult d2 A1"
    unfolding A2_def
    using handlePostedMessage_dispatch [OF codec oA1 p2(1)] dispatch_result [OF p2(2)] by simp
  then have A2: "promises A2 (nextPromise A) = Some (Resolved v)" "pendingFunctionCalls A2 now = None"
    using handleFunctionResult_settles [OF A1(4) p2(3), of ] un
    by (simp_all add: A1 p2)
  show ?thesis
    using call A1 B1 A2 un
    by (simp add: B1_def [symmetric] A2_def [symmetric] Let_def)
qed

lemma call_settles_with_listener_value_example:
  "sound (fresh (exampleConfig None (Some ''c1'') (Some 10000)) :: jsval option framecast)
   \<and> listeners doubler (''function:'' @ ''double'') = Some [doubling 1]
   \<and> body (doubling 1) [Num 5] = Returns (Num 10)
   \<and> (let (p, A1) = call exampleCodec ''double'' [Num 5] 1000
                       (fresh (exampleConfig None (Some ''c1'') (Some 10000)));
           B1 = handlePostedMessage exampleCodec (fst (last (posted A1))) ''https://a.example'' doubler;
           A2 = handlePostedMessage exampleCodec (fst (last (posted B1))) ''https://b.example'' A1
       in invoked B1 = invoked doubler @ [(doubling 1, [Num 5])]
        \<and> promises A1 p = None
        \<and> promises A2 p = Some (Resolved (Num 10))
        \<and> pendingFunctionCalls A1 1000 \<noteq> None
        \<and> pendingFunctionCalls A2 1000 = None)"
proof -
  define A :: "jsval option framecast" where "A = fresh (exampleConfig None (Some ''c1'') (Some 10000))"
  have s: "sound A" unfolding A_def by (rule sound_fresh)
  have codec: "parse exampleCodec (stringify exampleCodec x) = Some x" for x
    by (simp add: exampleCodec_def)
  have cfg: "config A = exampleConfig None (Some ''c1'') (Some 10000)"
    by (simp add: A_def fresh_def)
  have ms: "cfg_functionTimeoutMs (config A) = Some 10000" "(10000 :: int) \<noteq> 0"
    by (simp_all add: cfg exampleConfig_def)
  have ch: "channel (config A) = channel (config doubler)"
    by (simp add: cfg doubler_fields)
  have oB: "origin (config doubler) = ''*'' \<or> ''https://a.example'' = origin (config doubler)"
    by (simp add: doubler_fields exampleConfig_getters)
  have oA: "origin (config A) = ''*'' \<or> ''https://b.example'' = origin (config A)"
    by (simp add: cfg exampleConfig_getters)
  have b: "body (doubling 1) [Num 5] = Returns (Num 10)"
    by (simp add: doubling_def)
  have l: "listeners doubler (''function:'' @ ''double'') = Some [doubling 1]"
    by (simp add: doubler_fields)
  from call_settles_with_listener_value [OF codec s ms ch oB oA l b, of 1000] s l b
  show ?thesis
    unfolding A_def [symmetric] by simp
qed

text \<open>
  Claim C1 says that every call against a peer that has a listener for the name settles
  with exactly the value that listener returns, and that its pending entry is removed. The
  code does not do that for two calls made within one millisecond, which both take the id
  \<^verbatim>\<open>Date.now()\<close> = 1000: the call of \<^verbatim>\<open>f\<close> has promise 0 and the call of \<^verbatim>\<open>g\<close> promise 1,
  the peer has a listener for each and answers \<^verbatim>\<open>'from f'\<close> and \<^verbatim>\<open>'from g'\<close>, and when both
  replies have come back the call of \<^verbatim>\<open>g\<close> is resolved with \<^verbatim>\<open>'from f'\<close>, the value of the
  other listener, while the call of \<^verbatim>\<open>f\<close> is not settled by any reply and is rejected by
  its timer. This is the defect of claim C3, seen from the caller.
\<close>

theorem colliding_call_takes_other_reply:
  "fst (call exampleCodec ''f'' [] 1000 (fresh (exampleConfig None None (Some 10000)))) = 0
   \<and> fst (call exampleCodec ''g'' [] 1000
        (snd (call exampleCodec ''f'' [] 1000 (fresh (exampleConfig None None (Some 10000)))))) = 1
   \<and> listeners responder ''function:g'' = Some [returning 2 (Str ''from g'')]
   \<and> body (returning 2 (Str ''from g'')) [] = Returns (Str ''from g'')
   \<and> map fst (posted (run exampleCodec
          [Message (Some (exampleCall ''__framecast'' ''f'' 1000 [])) ''https://a.example'',
           Message (Some (exampleCall ''__framecast'' ''g'' 1000 [])) ''https://a.example'']
          responder))
       = [Some (exampleResult ''__framecast'' 1000 (Str ''from f'')),
          Some (exampleResult ''__framecast'' 1000 (Str ''from g''))]
   \<and> promises (run exampleCodec
          [Message (Some (exampleResult ''__framecast'' 1000 (Str ''from f''))) ''https://b.example'',
           Message (Some (exampleResult ''__framecast'' 1000 (Str ''from g''))) ''https://b.example'']
          twoCalls) 1
       = Some (Resolved (Str ''from f''))
   \<and> promises (run exampleCodec
          [Message (Some (exampleResult ''__framecast'' 1000 (Str ''from f''))) ''https://b.example'',
           Message (Some (exampleResult ''__framecast'' 1000 (Str ''from g''))) ''https://b.example'']
          twoCalls) 0
       = None
   \<and> pendingFunctionCalls (run exampleCodec
          [Message (Some (exampleResult ''__framecast'' 1000 (Str ''from f''))) ''https://b.example'',
           Message (Some (exampleResult ''__framecast'' 1000 (Str ''from g''))) ''https://b.example'']
          twoCalls) 1000
       = None
   \<and> promises (run exampleCodec
          [Message (Some (exampleResult ''__framecast'' 1000 (Str ''from f''))) ''https://b.example'',
           Message (Some (exampleResult ''__framecast'' 1000 (Str ''from g''))) ''https://b.example'',
           TimerDue 0]
          twoCalls) 0
       = Some (Rejected (Error ''f timed out after 10000ms''))"
proof -
  define A3 where "A3 = handlePostedMessage exampleCodec
      (Some (exampleResult ''__framecast'' 1000 (Str ''from f''))) ''https://b.example'' twoCalls"
  have ids: "fst (call exampleCodec ''f'' [] 1000 (fresh (exampleConfig None None (Some 10000)))) = 0"
    "fst (call exampleCodec ''g'' [] 1000
        (snd (call exampleCodec ''f'' [] 1000 (fresh (exampleConfig None None (Some 10000)))))) = 1"
    by (simp_all add: call_def Let_def fresh_def exampleConfig_def postMessage_def)
  have g: "body (returning 2 (Str ''from g'')) [] = Returns (Str ''from g'')"
    by (simp add: returning_def)
  have f: "body (returning 1 (Str ''from f'')) [] = Returns (Str ''from f'')"
    by (simp add: returning_def)
  have inv: "invoked responder = []"
    by (simp add: responder_def run_def on_def Let_def fresh_def)
  define B1 where "B1 = handlePostedMessage exampleCodec
      (Some (exampleCall ''__framecast'' ''f'' 1000 [])) ''https://a.example'' responder"
  have B1: "B1 = responder\<lparr>invoked := [(returning 1 (Str ''from f''), [])],
        posted := [(Some (exampleResult ''__framecast'' 1000 (Str ''from f'')), ''*'')]\<rparr>"
  proof -
    have "B1 = handleFunctionCall exampleCodec (''function:'' @ ''f'') (Num 1000) (Arr []) responder"
      by (simp add: B1_def handlePostedMessage_def exampleCodec_def responder_fields
          exampleConfig_getters exampleCall_def dispatch_def getField_def startsWith_def)
    then show ?thesis
      using handleFunctionCall_returns [of responder "''function:'' @ ''f''"
          "returning 1 (Str ''from f'')" "[]" "Str ''from f''" exampleCodec "Num 1000"] f
      by (simp add: responder_fields inv exampleConfig_getters exampleCodec_def exampleResult_def)
  qed
  have B1f: "config B1 = exampleConfig None None (Some 10000)"
    "listeners B1 ''function:g'' = Some [returning 2 (Str ''from g'')]"
    "posted B1 = [(Some (exampleResult ''__framecast'' 1000 (Str ''from f'')), ''*'')]"
    by (simp_all add: B1 responder_fields)
  have B2: "posted (handlePostedMessage exampleCodec
      (Some (exampleCall ''__framecast'' ''g'' 1000 [])) ''https://a.example'' B1)
      = [(Some (exampleResult ''__framecast'' 1000 (Str ''from f'')), ''*''),
         (Some (exampleResult ''__framecast'' 1000 (Str ''from g'')), ''*'')]"
  proof -
    have "handlePostedMessage exampleCodec
        (Some (exampleCall ''__framecast'' ''g'' 1000 [])) ''https://a.example'' B1
      = handleFunctionCall exampleCodec (''function:'' @ ''g'') (Num 1000) (Arr []) B1"
      by (simp add: handlePostedMessage_def exampleCodec_def B1f
          exampleConfig_getters exampleCall_def dispatch_def getField_def startsWith_def)
    then show ?thesis
      using handleFunctionCall_returns [of B1 "''function:'' @ ''g''"
          "returning 2 (Str ''from g'')" "[]" "Str ''from g''" exampleCodec "Num 1000"] g
      by (simp add: B1f exampleConfig_getters exampleCodec_def exampleResult_def)
  qed
  have A3: "A3 = twoCalls\<lparr>pendingFunctionCalls := Map.empty,
         timers := [0 \<mapsto> \<lparr>timer_id = 1000, timer_functionName = ''f'', timer_reject = 0,
                          delay = 10000\<rparr>],
         promises := [1 \<mapsto> Resolved (Str ''from f'')]\<rparr>"
    unfolding A3_def by (rule message_to_twoCalls)
  have A3f: "config A3 = exampleConfig None None (Some 10000)" "pendingFunctionCalls A3 = Map.empty"
    "promises A3 = [1 \<mapsto> Resolved (Str ''from f'')]"
    "timers A3 = [0 \<mapsto> \<lparr>timer_id = 1000, timer_functionName = ''f'', timer_reject = 0,
                          delay = 10000\<rparr>]"
    by (simp_all add: A3 twoCalls_fields)
  have A4: "handlePostedMessage exampleCodec
      (Some (exampleResult ''__framecast'' 1000 (Str ''from g''))) ''https://b.example'' A3 = A3"
    by (simp add: handlePostedMessage_def exampleCodec_def A3f exampleConfig_getters
        exampleResult_def dispatch_def handleFunctionResult_def getPending_def getField_def)
  have sh: "show_int 10000 = ''10000''"
    by (simp add: show_int_def show_nat_digit show_nat_more)
  have A5: "promises (fireTimer 0 A3) 0 = Some (Rejected (Error ''f timed out after 10000ms''))"
    by (simp add: fireTimer_def Let_def clearPendingFunctionCall_def settle_def A3f timedOut_def
        show_ms_def exampleConfig_def sh)
  show ?thesis
    using ids responder_fields(3) g B2 A4 A5
    by (simp add: run_Nil run_Cons B1_def [symmetric] A3_def [symmetric] A3f)
qed

text \<open>
  One entry of the table of pending calls, its timer and its result. The timer that
  \<^verbatim>\<open>call\<close> schedules rejects the promise of the call with
  \<^verbatim>\<open><name> timed out after <functionTimeoutMs>ms\<close> when it comes due. For an entry of the
  table in a reachable state: its timer is scheduled and its promise unsettled; when that
  timer comes due, the promise is rejected with the timeout error, the entry and the timer
  are gone, and a \<^verbatim>\<open>functionResult\<close> for that id arriving afterwards leaves the state as it
  is; when the result arrives instead, the promise is settled by the result, the entry and
  the timer are gone, and the timer coming due afterwards leaves the state as it is. The
  time that passes before a timer comes due belongs to the environment; here it is the event
  \<open>TimerDue\<close>. Nothing is said here about what the timer of another call does to the entry.
\<close>

lemma pending_call_cleared_once:
  assumes "sound s"
  shows "(\<forall>c f args now ms. cfg_functionTimeoutMs (config s) = Some ms \<and> ms \<noteq> 0 \<longrightarrow>
            promises (fireTimer (nextTimer s) (snd (call c f args now s))) (fst (call c f args now s))
              = Some (Rejected (Error (f @ '' timed out after '' @ show_int ms @ ''ms''))))
    \<and> (\<forall>i pc. pendingFunctionCalls s i = Some pc \<longrightarrow>
         (\<exists>t ms. timers s (timeout pc) = Some t \<and> timer_id t = i \<and> timer_reject t = promise pc
            \<and> cfg_functionTimeoutMs (config s) = Some ms \<and> promises s (promise pc) = None
            \<and> promises (fireTimer (timeout pc) s) (promise pc)
                = Some (Rejected (Error (timer_functionName t @ '' timed out after ''
                                           @ show_int ms @ ''ms'')))
            \<and> pendingFunctionCalls (fireTimer (timeout pc) s) i = None
            \<and> timers (fireTimer (timeout pc) s) (timeout pc) = None
            \<and> (\<forall>d. getField d ''id'' = Num i \<longrightarrow>
                  handleFunctionResult d (fireTimer (timeout pc) s) = fireTimer (timeout pc) s)
            \<and> (\<forall>c raw sender d.
                  parse c raw = Some d \<and> getProp d ''type'' = Some (Str ''functionResult'')
                  \<and> getField d ''id'' = Num i \<longrightarrow>
                  handlePostedMessage c raw sender (fireTimer (timeout pc) s)
                    = fireTimer (timeout pc) s)
            \<and> (\<forall>d. getField d ''id'' = Num i \<longrightarrow>
                  promises (handleFunctionResult d s) (promise pc)
                    = Some (if truthy (getField d ''error'') then Rejected (getField d ''error'')
                            else Resolved (getField d ''result''))
                \<and> pendingFunctionCalls (handleFunctionResult d s) i = None
                \<and> timers (handleFunctionResult d s) (timeout pc) = None
                \<and> fireTimer (timeout pc) (handleFunctionResult d s) = handleFunctionResult d s)))"
proof (intro conjI allI impI)
  fix c :: "'a codec" and f args now ms
  assume "cfg_functionTimeoutMs (config s) = Some ms \<and> ms \<noteq> 0"
  then have ms: "cfg_functionTimeoutMs (config s) = Some ms" "ms \<noteq> 0" by simp_all
  define s' where "s' = snd (call c f args now s)"
  define t0 where
    "t0 = \<lparr>timer_id = now, timer_functionName = f, timer_reject = nextPromise s, delay = ms\<rparr>"
  define pc0 where "pc0 = \<lparr>timeout = nextTimer s, promise = nextPromise s\<rparr>"
  have un: "promises s (nextPromise s) = None"
    using sound_promises [OF assms, of "nextPromise s"] by simp
  have s': "pendingFunctionCalls s' now = Some pc0" "timers s' (timeout pc0) = Some t0"
    "promises s' (promise pc0) = None" "config s' = config s"
    using un by (simp_all add: s'_def pc0_def t0_def call_scheduled [OF ms])
  have c: "call c f args now s = (nextPromise s, s')"
    by (simp add: s'_def call_scheduled [OF ms])
  have "promises (fireTimer (timeout pc0) s') (promise pc0)
      = Some (Rejected (timedOut (config s') (timer_functionName t0)))"
    using fireTimer_pending [OF s'(1,2) _ _ s'(3)] by (simp add: t0_def pc0_def)
  then show "promises (fireTimer (nextTimer s) (snd (call c f args now s))) (fst (call c f args now s))
      = Some (Rejected (Error (f @ '' timed out after '' @ show_int ms @ ''ms'')))"
    by (simp add: c pc0_def t0_def s'(4) timedOut_def show_ms_def ms)
next
  fix i pc
  assume pc: "pendingFunctionCalls s i = Some pc"
  from sound_pending [OF assms pc] obtain t where
    t: "timers s (timeout pc) = Some t" "timer_id t = i" "timer_reject t = promise pc" by blast
  from sound_timer [OF assms t(1)] t(3) have
    un: "promises s (promise pc) = None" and
    ms: "cfg_functionTimeoutMs (config s) = Some (delay t)" by simp_all
  note fire = fireTimer_pending [OF pc t un]
  have msg: "timedOut (config s) (timer_functionName t)
      = Error (timer_functionName t @ '' timed out after '' @ show_int (delay t) @ ''ms'')"
    by (simp add: timedOut_def show_ms_def ms)
  have 1: "promises (fireTimer (timeout pc) s) (promise pc)
          = Some (Rejected (Error (timer_functionName t @ '' timed out after '' @ show_int (delay t) @ ''ms'')))"
    "pendingFunctionCalls (fireTimer (timeout pc) s) i = None"
    "timers (fireTimer (timeout pc) s) (timeout pc) = None"
    by (simp_all add: fire msg)
  have 2: "handleFunctionResult d (fireTimer (timeout pc) s) = fireTimer (timeout pc) s"
    if "getField d ''id'' = Num i" for d
    using handleFunctionResult_unknown [OF that 1(2)] .
  have late: "handlePostedMessage c raw sender (fireTimer (timeout pc) s) = fireTimer (timeout pc) s"
    if "parse c raw = Some d \<and> getProp d ''type'' = Some (Str ''functionResult'')
        \<and> getField d ''id'' = Num i" for c :: "'a codec" and raw sender d
    using that 2 [of d]
    by (auto simp: handlePostedMessage_def dispatch_result split: option.splits)
  have 3: "promises (handleFunctionResult d s) (promise pc)
              = Some (if truthy (getField d ''error'') then Rejected (getField d ''error'')
                      else Resolved (getField d ''result''))
          \<and> pendingFunctionCalls (handleFunctionResult d s) i = None
          \<and> timers (handleFunctionResult d s) (timeout pc) = None
          \<and> fireTimer (timeout pc) (handleFunctionResult d s) = handleFunctionResult d s"
    if "getField d ''id'' = Num i" for d
  proof -
    note res = handleFunctionResult_settles [OF pc that un]
    have "timers (handleFunctionResult d s) (timeout pc) = None"
      by (simp add: res)
    from fireTimer_cleared [OF this] show ?thesis
      by (simp add: res)
  qed
  from t ms un 1 2 late 3
  show "\<exists>t ms. timers s (timeout pc) = Some t \<and> timer_id t = i \<and> timer_reject t = promise pc
            \<and> cfg_functionTimeoutMs (config s) = Some ms \<and> promises s (promise pc) = None
            \<and> promises (fireTimer (timeout pc) s) (promise pc)
                = Some (Rejected (Error (timer_functionName t @ '' timed out after ''
                                           @ show_int ms @ ''ms'')))
            \<and> pendingFunctionCalls (fireTimer (timeout pc) s) i = None
            \<and> timers (fireTimer (timeout pc) s) (timeout pc) = None
            \<and> (\<forall>d. getField d ''id'' = Num i \<longrightarrow>
                  handleFunctionResult d (fireTimer (timeout pc) s) = fireTimer (timeout pc) s)
            \<and> (\<forall>c raw sender d.
                  parse c raw = Some d \<and> getProp d ''type'' = Some (Str ''functionResult'')
                  \<and> getField d ''id'' = Num i \<longrightarrow>
                  handlePostedMessage c raw sender (fireTimer (timeout pc) s)
                    = fireTimer (timeout pc) s)
            \<and> (\<forall>d. getField d ''id'' = Num i \<longrightarrow>
                  promises (handleFunctionResult d s) (promise pc)
                    = Some (if truthy (getField d ''error'') then Rejected (getField d ''error'')
                            else Resolved (getField d ''result''))
                \<and> pendingFunctionCalls (handleFunctionResult d s) i = None
                \<and> timers (handleFunctionResult d s) (timeout pc) = None
                \<and> fireTimer (timeout pc) (handleFunctionResult d s) = handleFunctionResult d s)"
    by blast
qed

lemma pending_call_cleared_once_example:
  "sound (fresh (exampleConfig None None (Some 50)) :: jsval option framecast)
   \<and> sound slowCall
   \<and> promises (fireTimer 0 (snd (call exampleCodec ''slow'' [] 1000
         (fresh (exampleConfig None None (Some 50)))))) 0
      = Some (Rejected (Error ''slow timed out after 50ms''))
   \<and> pendingFunctionCalls slowCall 1000 = Some \<lparr>timeout = 0, promise = 0\<rparr>
   \<and> promises (fireTimer 0 slowCall) 0 = Some (Rejected (Error ''slow timed out after 50ms''))
   \<and> pendingFunctionCalls (fireTimer 0 slowCall) 1000 = None
   \<and> handleFunctionResult (exampleResult ''__framecast'' 1000 (Num 1)) (fireTimer 0 slowCall)
      = fireTimer 0 slowCall
   \<and> promises (handleFunctionResult (exampleResult ''__framecast'' 1000 (Num 1)) slowCall) 0
      = Some (Resolved (Num 1))
   \<and> fireTimer 0 (handleFunctionResult (exampleResult ''__framecast'' 1000 (Num 1)) slowCall)
      = handleFunctionResult (exampleResult ''__framecast'' 1000 (Num 1)) slowCall"
proof -
  define z :: "jsval option framecast" where "z = fresh (exampleConfig None None (Some 50))"
  have z: "sound z" unfolding z_def by (rule sound_fresh)
  have zf: "cfg_functionTimeoutMs (config z) = Some 50 \<and> (50 :: int) \<noteq> 0" "nextTimer z = 0"
    by (simp_all add: z_def fresh_def exampleConfig_def)
  have fst: "fst (call exampleCodec ''slow'' [] 1000 z) = 0"
    by (simp add: call_def Let_def z_def fresh_def exampleConfig_def)
  have s: "sound slowCall"
    unfolding slowCall_def by (rule sound_call [OF sound_fresh])
  have p: "pendingFunctionCalls slowCall 1000 = Some \<lparr>timeout = 0, promise = 0\<rparr>"
    by (simp add: slowCall_fields)
  have d: "getField (exampleResult ''__framecast'' 1000 (Num 1)) ''id'' = Num 1000"
    "getField (exampleResult ''__framecast'' 1000 (Num 1)) ''error'' = Undefined"
    "getField (exampleResult ''__framecast'' 1000 (Num 1)) ''result'' = Num 1"
    by (simp_all add: exampleResult_def getField_def)
  have sh: "show_int 50 = ''50''"
    by (simp add: show_int_def show_nat_digit show_nat_more)
  from pending_call_cleared_once [OF z] zf(1)
  have "promises (fireTimer (nextTimer z) (snd (call exampleCodec ''slow'' [] 1000 z)))
           (fst (call exampleCodec ''slow'' [] 1000 z))
      = Some (Rejected (Error (''slow'' @ '' timed out after '' @ show_int 50 @ ''ms'')))"
    by blast
  then have 0: "promises (fireTimer 0 (snd (call exampleCodec ''slow'' [] 1000 z))) 0
      = Some (Rejected (Error ''slow timed out after 50ms''))"
    by (simp add: zf fst sh)
  from pending_call_cleared_once [OF s] p obtain t ms where
    t: "timers slowCall (timeout \<lparr>timeout = 0, promise = 0\<rparr>) = Some t"
      "cfg_functionTimeoutMs (config slowCall) = Some ms"
    and r: "promises (fireTimer (timeout \<lparr>timeout = 0, promise = 0\<rparr>) slowCall) (promise \<lparr>timeout = 0, promise = 0\<rparr>)
          = Some (Rejected (Error (timer_functionName t @ '' timed out after '' @ show_int ms @ ''ms'')))"
      "pendingFunctionCalls (fireTimer (timeout \<lparr>timeout = 0, promise = 0\<rparr>) slowCall) 1000 = None"
      "\<forall>d. getField d ''id'' = Num 1000 \<longrightarrow>
            handleFunctionResult d (fireTimer (timeout \<lparr>timeout = 0, promise = 0\<rparr>) slowCall)
              = fireTimer (timeout \<lparr>timeout = 0, promise = 0\<rparr>) slowCall"
      "\<forall>d. getField d ''id'' = Num 1000 \<longrightarrow>
            promises (handleFunctionResult d slowCall) (promise \<lparr>timeout = 0, promise = 0\<rparr>)
              = Some (if truthy (getField d ''error'') then Rejected (getField d ''error'')
                      else Resolved (getField d ''result''))
          \<and> pendingFunctionCalls (handleFunctionResult d slowCall) 1000 = None
          \<and> timers (handleFunctionResult d slowCall) (timeout \<lparr>timeout = 0, promise = 0\<rparr>) = None
          \<and> fireTimer (timeout \<lparr>timeout = 0, promise = 0\<rparr>) (handleFunctionResult d slowCall)
              = handleFunctionResult d slowCall"
    by blast
  from t have tm: "timer_functionName t = ''slow''" "ms = 50"
    by (auto simp: slowCall_fields exampleConfig_def)
  from r(3) d(1) have late: "handleFunctionResult (exampleResult ''__framecast'' 1000 (Num 1)) (fireTimer 0 slowCall)
      = fireTimer 0 slowCall"
    by simp
  from r(4) d have first: "promises (handleFunctionResult (exampleResult ''__framecast'' 1000 (Num 1)) slowCall) 0
      = Some (Resolved (Num 1))
     \<and> fireTimer 0 (handleFunctionResult (exampleResult ''__framecast'' 1000 (Num 1)) slowCall)
      = handleFunctionResult (exampleResult ''__framecast'' 1000 (Num 1)) slowCall"
    by simp
  from z s 0 p r(1,2) late first show ?thesis
    unfolding z_def [symmetric] by (simp add: tm sh)
qed

text \<open>
  Claim C2 says that every pending call for which no \<^verbatim>\<open>functionResult\<close> arrives within the
  timeout is rejected with the timeout error, and that its entry is cleared exactly once.
  The code does not do that for two calls made within one millisecond: the call of \<^verbatim>\<open>g\<close>
  is pending, with its entry under the id 1000, its timer 1 scheduled and its promise 1
  unsettled, and no result ever arrives. The timer of \<^verbatim>\<open>f\<close> comes due first; its callback
  clears whatever entry is under the id 1000, which is the entry of \<^verbatim>\<open>g\<close>, and cancels the
  timer of that entry. The timer of \<^verbatim>\<open>g\<close> then never runs, and the promise of \<^verbatim>\<open>g\<close> is
  never rejected. This is the defect of claim C3, seen from the timeout.
\<close>

theorem colliding_call_loses_its_timeout:
  "pendingFunctionCalls twoCalls 1000 = Some \<lparr>timeout = 1, promise = 1\<rparr>
   \<and> timers twoCalls 1
       = Some \<lparr>timer_id = 1000, timer_functionName = ''g'', timer_reject = 1, delay = 10000\<rparr>
   \<and> promises twoCalls 1 = None
   \<and> promises (run exampleCodec [TimerDue 0] twoCalls) 0
       = Some (Rejected (Error ''f timed out after 10000ms''))
   \<and> pendingFunctionCalls (run exampleCodec [TimerDue 0] twoCalls) 1000 = None
   \<and> timers (run exampleCodec [TimerDue 0] twoCalls) 1 = None
   \<and> run exampleCodec [TimerDue 0, TimerDue 1] twoCalls = run exampleCodec [TimerDue 0] twoCalls
   \<and> promises (run exampleCodec [TimerDue 0, TimerDue 1] twoCalls) 1 = None"
proof -
  have sh: "show_int 10000 = ''10000''"
    by (simp add: show_int_def show_nat_digit show_nat_more)
  define T where "T = fireTimer 0 twoCalls"
  have T: "T = twoCalls\<lparr>timers := Map.empty, pendingFunctionCalls := Map.empty,
           promises := [0 \<mapsto> Rejected (Error ''f timed out after 10000ms'')]\<rparr>"
    by (simp add: T_def fireTimer_def Let_def clearPendingFunctionCall_def clearTimeout_def
        settle_def twoCalls_fields timedOut_def show_ms_def exampleConfig_def sh)
  have Tf: "timers T = Map.empty" "pendingFunctionCalls T = Map.empty"
    "promises T = [0 \<mapsto> Rejected (Error ''f timed out after 10000ms'')]"
    by (simp_all add: T)
  have T2: "fireTimer h T = T" for h
    by (simp add: fireTimer_def Tf)
  show ?thesis
    by (simp add: run_Nil run_Cons T_def [symmetric] Tf T2 twoCalls_fields)
qed

text \<open>
  Claim C3 says that two calls of one endpoint whose lifetimes overlap have distinct
  correlation ids. The id is \<^verbatim>\<open>Date.now()\<close>, so it does not hold for two calls made within
  the same millisecond: the envelopes of \<^verbatim>\<open>f\<close> and \<^verbatim>\<open>g\<close> both carry the id 1000, the table
  holds one entry, that of the second call, and the reply of the peer to \<^verbatim>\<open>f\<close> resolves the
  promise of \<^verbatim>\<open>g\<close> with the value of \<^verbatim>\<open>f\<close> while the promise of \<^verbatim>\<open>f\<close> stays unsettled.
  When instead the timer of \<^verbatim>\<open>f\<close> comes due first, it removes the entry and the timer of
  \<^verbatim>\<open>g\<close>, whose promise then stays unsettled.
\<close>

theorem correlation_id_collision:
  "map fst (posted twoCalls)
     = [Some (exampleCall ''__framecast'' ''f'' 1000 []), Some (exampleCall ''__framecast'' ''g'' 1000 [])]
   \<and> pendingFunctionCalls twoCalls 1000 = Some \<lparr>timeout = 1, promise = 1\<rparr>
   \<and> posted (handlePostedMessage exampleCodec (Some (exampleCall ''__framecast'' ''f'' 1000 []))
         ''https://a.example'' responder)
       = [(Some (exampleResult ''__framecast'' 1000 (Str ''from f'')), ''*'')]
   \<and> promises (handlePostedMessage exampleCodec
         (Some (exampleResult ''__framecast'' 1000 (Str ''from f''))) ''https://b.example'' twoCalls) 1
       = Some (Resolved (Str ''from f''))
   \<and> promises (handlePostedMessage exampleCodec
         (Some (exampleResult ''__framecast'' 1000 (Str ''from f''))) ''https://b.example'' twoCalls) 0
       = None
   \<and> pendingFunctionCalls (fireTimer 0 twoCalls) 1000 = None
   \<and> timers (fireTimer 0 twoCalls) 1 = None
   \<and> promises (fireTimer 0 twoCalls) 1 = None"
proof -
  have ch: "channel (exampleConfig None None (Some 10000)) = ''__framecast''"
    "origin (exampleConfig None None (Some 10000)) = ''*''"
    by (simp_all add: channel_def origin_def exampleConfig_def)
  have 1: "handlePostedMessage exampleCodec (Some (exampleCall ''__framecast'' ''f'' 1000 []))
         ''https://a.example'' responder
      = handleFunctionCall exampleCodec (''function:'' @ ''f'') (Num 1000) (Arr []) responder"
    by (simp add: handlePostedMessage_def exampleCodec_def responder_fields ch exampleCall_def
        dispatch_def getField_def startsWith_def)
  have 2: "posted (handlePostedMessage exampleCodec (Some (exampleCall ''__framecast'' ''f'' 1000 []))
         ''https://a.example'' responder)
       = [(Some (exampleResult ''__framecast'' 1000 (Str ''from f'')), ''*'')]"
    unfolding 1
    using handleFunctionCall_returns [of responder "''function:'' @ ''f''" "returning 1 (Str ''from f'')"
        "[]" "Str ''from f''" exampleCodec "Num 1000"]
    by (simp add: responder_fields returning_def ch exampleCodec_def exampleResult_def)
  have 3: "handlePostedMessage exampleCodec
         (Some (exampleResult ''__framecast'' 1000 (Str ''from f''))) ''https://b.example'' twoCalls
      = handleFunctionResult (exampleResult ''__framecast'' 1000 (Str ''from f'')) twoCalls"
    by (simp add: handlePostedMessage_def exampleCodec_def twoCalls_fields ch exampleResult_def
        dispatch_def)
  have 4: "promises (handleFunctionResult (exampleResult ''__framecast'' 1000 (Str ''from f'')) twoCalls)
      = [1 \<mapsto> Resolved (Str ''from f'')]"
    using handleFunctionResult_settles [of twoCalls 1000 "\<lparr>timeout = 1, promise = 1\<rparr>"
        "exampleResult ''__framecast'' 1000 (Str ''from f'')"]
    by (simp add: twoCalls_fields exampleResult_def getField_def)
  have 5: "fireTimer 0 twoCalls
      = twoCalls\<lparr>timers := Map.empty, pendingFunctionCalls := Map.empty,
           promises := [0 \<mapsto> Rejected (timedOut (config twoCalls) ''f'')]\<rparr>"
    by (simp add: fireTimer_def Let_def clearPendingFunctionCall_def clearTimeout_def settle_def
        twoCalls_fields)
  show ?thesis
    by (simp add: twoCalls_fields 2 3 4 5)
qed

end
